theory Spec2Isabelle
  imports Complex_Main "HOL-Library.AList"
begin

section \<open>Python values\<close>

text \<open>
  Both services exchange JSON. A parsed JSON document is one of Python's \<open>None\<close>, \<open>bool\<close>,
  \<open>int\<close>, \<open>float\<close>, \<open>str\<close>, \<open>list\<close> or \<open>dict\<close>. A finite float is carried by its exact
  rational value; NaN and the infinities are not values of this model. A dict is an
  association list in insertion order.
\<close>

datatype json =
    JNull
  | JBool bool
  | JInt int
  | JFloat rat
  | JStr string
  | JArr "json list"
  | JObj "(string \<times> json) list"

text \<open>
  An exception: its class name and its text, as \<open>str(e)\<close> gives it. (The texts of the
  interpreter's own \<open>TypeError\<close>s and \<open>ValueError\<close>s of conversion name the types or the
  literal involved; they are shortened here where no response shows them.)
\<close>

datatype exn = Exn string string

text \<open>
  What a view function does: it returns a response (status code and JSON body), or an
  exception leaves it.
\<close>

datatype result = Response nat json | Raised exn

text \<open>
  No error handler is registered in either application, so an exception that leaves a view
  function is answered by the framework's default fault boundary with status 500.
\<close>

fun http_status :: "result \<Rightarrow> nat" where
  "http_status (Response code body) = code"
| "http_status (Raised e) = 500"

text \<open>\<open>bool(v)\<close>, as \<open>not data\<close> and \<open>if not user\<close> use it.\<close>

fun py_truthy :: "json \<Rightarrow> bool" where
  "py_truthy JNull = False"
| "py_truthy (JBool b) = b"
| "py_truthy (JInt n) = (n \<noteq> 0)"
| "py_truthy (JFloat q) = (q \<noteq> 0)"
| "py_truthy (JStr s) = (s \<noteq> [])"
| "py_truthy (JArr xs) = (xs \<noteq> [])"
| "py_truthy (JObj kvs) = (kvs \<noteq> [])"

text \<open>A dict built from pairs keeps, for a repeated key, the last value.\<close>

definition obj_get :: "(string \<times> json) list \<Rightarrow> string \<Rightarrow> json option" where
  "obj_get kvs k = map_of (rev kvs) k"

fun starts_with :: "string \<Rightarrow> string \<Rightarrow> bool" where
  "starts_with [] s = True"
| "starts_with (p # ps) [] = False"
| "starts_with (p # ps) (c # cs) = (p = c \<and> starts_with ps cs)"

fun is_substring :: "string \<Rightarrow> string \<Rightarrow> bool" where
  "is_substring p [] = (p = [])"
| "is_substring p (c # cs) = (starts_with p (c # cs) \<or> is_substring p cs)"

text \<open>
  \<open>k in v\<close> for a string \<open>k\<close>: a key test on a dict, a membership test on a list, a
  substring test on a string, and a \<open>TypeError\<close> on a value that is not a container.
\<close>

fun py_in :: "string \<Rightarrow> json \<Rightarrow> exn + bool" where
  "py_in k (JObj kvs) = Inr (k \<in> fst ` set kvs)"
| "py_in k (JArr xs) = Inr (JStr k \<in> set xs)"
| "py_in k (JStr s) = Inr (is_substring k s)"
| "py_in k v = Inl (Exn ''TypeError'' ''argument is not iterable'')"

text \<open>\<open>v[k]\<close> for a string \<open>k\<close>.\<close>

fun py_getitem :: "json \<Rightarrow> string \<Rightarrow> exn + json" where
  "py_getitem (JObj kvs) k =
     (case obj_get kvs k of None \<Rightarrow> Inl (Exn ''KeyError'' k) | Some v \<Rightarrow> Inr v)"
| "py_getitem (JArr xs) k = Inl (Exn ''TypeError'' ''list indices must be integers or slices, not str'')"
| "py_getitem (JStr s) k = Inl (Exn ''TypeError'' ''string indices must be integers'')"
| "py_getitem v k = Inl (Exn ''TypeError'' ''object is not subscriptable'')"

text \<open>\<open>v.get(k, default)\<close>: only a dict has the method.\<close>

fun py_get :: "json \<Rightarrow> string \<Rightarrow> json \<Rightarrow> exn + json" where
  "py_get (JObj kvs) k d = Inr (case obj_get kvs k of None \<Rightarrow> d | Some v \<Rightarrow> v)"
| "py_get v k d = Inl (Exn ''AttributeError'' ''object has no attribute get'')"

text \<open>\<open>str(n)\<close> of an int: its decimal digits, with a minus sign when negative.\<close>

definition digit_char :: "nat \<Rightarrow> char" where
  "digit_char d = ''0123456789'' ! d"

function str_nat :: "nat \<Rightarrow> string" where
  "str_nat n = (if n < 10 then [digit_char n] else str_nat (n div 10) @ [digit_char (n mod 10)])"
  by pat_completeness auto
termination
  by (relation "measure (\<lambda>n. n)") auto

declare str_nat.simps [simp del]

definition str_int :: "int \<Rightarrow> string" where
  "str_int i = (if i < 0 then CHR ''-'' # str_nat (nat (- i)) else str_nat (nat i))"

text \<open>
  \<open>int(s)\<close> of a string of ASCII characters: surrounding whitespace (tab, line feed,
  vertical tab, form feed, carriage return, space) is dropped, a sign may lead, and the
  digits may be grouped by single underscores. \<open>None\<close> stands for the \<open>ValueError\<close>.
  (A string with a character outside ASCII, where \<open>int\<close> also accepts the other
  whitespace and the other decimal digits of Unicode, and the interpreter's limit on the
  number of digits, are not part of this model.)
\<close>

definition is_space :: "char \<Rightarrow> bool" where
  "is_space c = (of_char c \<in> {9, 10, 11, 12, 13, 32 :: nat})"

definition is_digit :: "char \<Rightarrow> bool" where
  "is_digit c = (c \<in> set ''0123456789'')"

definition digit_val :: "char \<Rightarrow> nat" where
  "digit_val c = of_char c - 48"

definition py_strip :: "string \<Rightarrow> string" where
  "py_strip s = rev (dropWhile is_space (rev (dropWhile is_space s)))"

fun dec_rest :: "nat \<Rightarrow> string \<Rightarrow> nat option" where
  "dec_rest acc [] = Some acc"
| "dec_rest acc [c] = (if is_digit c then Some (10 * acc + digit_val c) else None)"
| "dec_rest acc (c # d # ds) =
     (if is_digit c then dec_rest (10 * acc + digit_val c) (d # ds)
      else if c = CHR ''_'' \<and> is_digit d then dec_rest (10 * acc + digit_val d) ds
      else None)"

definition dec_digits :: "string \<Rightarrow> nat option" where
  "dec_digits s =
     (case s of [] \<Rightarrow> None
      | c # cs \<Rightarrow> if is_digit c then dec_rest (digit_val c) cs else None)"

definition py_int :: "string \<Rightarrow> int option" where
  "py_int s =
     (case py_strip s of
        [] \<Rightarrow> None
      | c # cs \<Rightarrow>
          if c = CHR ''-'' then map_option (\<lambda>n. - int n) (dec_digits cs)
          else if c = CHR ''+'' then map_option int (dec_digits cs)
          else map_option int (dec_digits (c # cs)))"

text \<open>
  Floating-point operations are not computed here. The three the database service needs
  are parameters of the model: \<open>repr(x)\<close>, \<open>float(s)\<close> of a string (\<open>None\<close> for the
  \<open>ValueError\<close>), and the rounding of an exact sum to the float that \<open>x + 1\<close> returns.
  A fourth parameter says which texts can be encoded as UTF-8: a \<open>str\<close> that the JSON
  parser built from the escape of a lone surrogate cannot, and the characters of this model
  do not show it.
\<close>

record pyrt =
  float_repr :: "rat \<Rightarrow> string"
  float_of_str :: "string \<Rightarrow> rat option"
  float_round :: "rat \<Rightarrow> rat"
  utf8_ok :: "string \<Rightarrow> bool"

text \<open>The number a value stands for in a comparison or a sum, if it is a number.\<close>

fun num_val :: "json \<Rightarrow> rat option" where
  "num_val (JInt n) = Some (of_int n)"
| "num_val (JBool b) = Some (if b then 1 else 0)"
| "num_val (JFloat q) = Some q"
| "num_val v = None"

text \<open>
  \<open>w + 1\<close> for a number \<open>w\<close>: an int for an int or a bool, a float for a float.
\<close>

fun py_add_one :: "pyrt \<Rightarrow> json \<Rightarrow> exn + json" where
  "py_add_one rt (JInt n) = Inr (JInt (n + 1))"
| "py_add_one rt (JBool b) = Inr (JInt ((if b then 1 else 0) + 1))"
| "py_add_one rt (JFloat q) = Inr (JFloat (float_round rt (q + 1)))"
| "py_add_one rt v = Inl (Exn ''TypeError'' ''unsupported operand type(s) for +'')"

text \<open>
  \<open>max(c, v) + 1\<close>, where \<open>c\<close> is a number: \<open>max\<close> keeps \<open>c\<close> unless \<open>v > c\<close>, and the
  comparison raises \<open>TypeError\<close> when \<open>v\<close> is not a number. Numbers of different types are
  compared by their exact values.
\<close>

definition py_max_add_one :: "pyrt \<Rightarrow> json \<Rightarrow> json \<Rightarrow> exn + json" where
  "py_max_add_one rt c v =
     (case (num_val c, num_val v) of
        (Some a, Some b) \<Rightarrow> py_add_one rt (if b > a then v else c)
      | _ \<Rightarrow> Inl (Exn ''TypeError'' ''> not supported between these instances''))"

text \<open>
  Keys of a Python dict: a list or a dict is unhashable (\<open>None\<close> here, for the
  \<open>TypeError\<close>); numbers that compare equal are the same key.
\<close>

datatype pykey = KNone | KNum rat | KStr string

fun py_key :: "json \<Rightarrow> pykey option" where
  "py_key JNull = Some KNone"
| "py_key (JBool b) = Some (KNum (if b then 1 else 0))"
| "py_key (JInt n) = Some (KNum (of_int n))"
| "py_key (JFloat q) = Some (KNum q)"
| "py_key (JStr s) = Some (KStr s)"
| "py_key (JArr xs) = None"
| "py_key (JObj kvs) = None"

section \<open>The API service (applications/api/app.py)\<close>

text \<open>The module's globals \<open>users\<close> and \<open>user_counter\<close>.\<close>

record api_state =
  users :: "json list"
  user_counter :: int

definition api_init :: api_state where
  "api_init = \<lparr>users = [], user_counter = 1\<rparr>"

text \<open>
  What a call of \<open>requests.get\<close>, \<open>requests.post\<close> or \<open>requests.delete\<close> to the database
  service does: it raises (a timeout, a transport error), or it returns a response with a
  status code and a body; the body is \<open>None\<close> here when \<open>response.json()\<close> would raise.
\<close>

datatype downstream =
    DownTimeout
  | DownTransportError
  | DownReply nat "json option"

text \<open>The body of the \<open>try\<close> block of \<open>get_users\<close>; \<open>Inl\<close> is an exception raised inside it.\<close>

definition fetch_all_users :: "json list \<Rightarrow> downstream \<Rightarrow> exn + json list" where
  "fetch_all_users local d =
     (case d of
        DownTimeout \<Rightarrow> Inl (Exn ''Timeout'' [])
      | DownTransportError \<Rightarrow> Inl (Exn ''ConnectionError'' [])
      | DownReply code body \<Rightarrow>
          if code = 200 then
            (case body of
               None \<Rightarrow> Inl (Exn ''JSONDecodeError'' [])
             | Some db_users \<Rightarrow>
                 (case py_get db_users ''users'' (JArr []) of
                    Inl e \<Rightarrow> Inl e
                  | Inr (JArr db_list) \<Rightarrow> Inr (local @ db_list)
                  | Inr other \<Rightarrow> Inl (Exn ''TypeError'' ''can only concatenate list to list'')))
          else Inr local)"

definition api_get_users :: "api_state \<Rightarrow> downstream \<Rightarrow> result" where
  "api_get_users st d =
     (let all_users = (case fetch_all_users (users st) d of
                         Inl e \<Rightarrow> users st
                       | Inr us \<Rightarrow> us)
      in Response 200 (JObj [(''users'', JArr all_users),
                             (''count'', JInt (int (length all_users))),
                             (''source'', JStr ''api-service'')]))"

text \<open>
  \<open>create_user\<close>: \<open>data\<close> is what \<open>request.get_json()\<close> returned, \<open>now\<close> is the reading of
  \<open>time.time()\<close>. A request without a JSON body does not get this far: \<open>get_json\<close>
  raises, and the framework answers (415 when the content type is not JSON, 400 when the
  body does not parse). The call to the database service sits in a \<open>try\<close> whose handler
  only prints, and both branches after the call only print, so its outcome \<open>d\<close> changes
  nothing.
\<close>

definition api_create_user :: "api_state \<Rightarrow> json \<Rightarrow> rat \<Rightarrow> downstream \<Rightarrow> result \<times> api_state" where
  "api_create_user st data now d =
     (if \<not> py_truthy data then (Response 400 (JObj [(''error'', JStr ''Name is required'')]), st)
      else case py_in ''name'' data of
        Inl e \<Rightarrow> (Raised e, st)
      | Inr False \<Rightarrow> (Response 400 (JObj [(''error'', JStr ''Name is required'')]), st)
      | Inr True \<Rightarrow>
          (case py_getitem data ''name'' of
             Inl e \<Rightarrow> (Raised e, st)
           | Inr name \<Rightarrow>
               (case py_get data ''email'' (JStr []) of
                  Inl e \<Rightarrow> (Raised e, st)
                | Inr email \<Rightarrow>
                    let user = JObj [(''id'', JInt (user_counter st)),
                                     (''name'', name),
                                     (''email'', email),
                                     (''created_at'', JFloat now)]
                    in (Response 201 user,
                        st\<lparr>users := users st @ [user],
                           user_counter := user_counter st + 1\<rparr>))))"

text \<open>
  What the fault scenarios of the API service meet outside the process. Each field is the
  outcome of one call that leaves the program: whether the handler runs in the interpreter's
  main thread (\<open>signal.signal\<close> raises \<open>ValueError\<close> elsewhere), whether the two-second alarm
  fires before the loop reaches its own exit, the message of the \<open>MemoryError\<close> of the large
  allocation if the runtime refuses it, what opening and reading the file gives, what the
  request to the remote host gives, and what the \<open>sqlite3\<close> calls give (\<open>Inl\<close> the text of the
  exception raised, \<open>Inr\<close> the rows fetched).
\<close>

datatype net_outcome =
    NetTimeout string
  | NetFailure exn
  | NetReply "json option"

record api_env =
  in_main_thread :: bool
  alarm_fires :: bool
  alloc_error :: "string option"
  open_file :: "exn + string"
  httpbin :: net_outcome
  sqlite :: "string + json"

text \<open>The loop of the \<open>infinite_loop\<close> scenario, when no alarm interrupts it.\<close>

function busy_loop :: "nat \<Rightarrow> nat" where
  "busy_loop counter =
     (let counter' = counter + 1 in if counter' > 1000000 then counter' else busy_loop counter')"
  by pat_completeness auto
termination
  by (relation "measure (\<lambda>counter. 1000001 - counter)") (auto simp: Let_def)

declare busy_loop.simps [simp del]

definition api_available_errors :: "string list" where
  "api_available_errors =
     [''division_by_zero'', ''null_pointer'', ''index_out_of_bounds'', ''type_error'',
      ''infinite_loop'', ''memory_error'', ''file_not_found'', ''json_decode_error'',
      ''network_timeout'', ''database_error'', ''validation_error'', ''custom_exception'',
      ''async_error'']"

definition trigger_specific_error :: "api_env \<Rightarrow> string \<Rightarrow> result" where
  "trigger_specific_error env error_type =
     (if error_type = ''division_by_zero'' then
        Raised (Exn ''ZeroDivisionError'' ''division by zero'')
      else if error_type = ''null_pointer'' then
        Raised (Exn ''AttributeError''
                  (CHR 0x27 # ''NoneType' object has no attribute 'get'' @ [CHR 0x27]))
      else if error_type = ''index_out_of_bounds'' then
        Raised (Exn ''IndexError'' ''list index out of range'')
      else if error_type = ''type_error'' then
        Raised (Exn ''ValueError''
                  (''invalid literal for int() with base 10: 'not_a_number'' @ [CHR 0x27]))
      else if error_type = ''infinite_loop'' then
        (if \<not> in_main_thread env then
           Raised (Exn ''ValueError'' ''signal only works in main thread of the main interpreter'')
         else if alarm_fires env then
           Raised (Exn ''TimeoutError'' ''Loop execution timed out'')
         else
           (let counter = busy_loop 0
            in Response 200 (JObj [(''error'', JStr ''Infinite loop detected and stopped'')])))
      else if error_type = ''memory_error'' then
        (case alloc_error env of
           None \<Rightarrow> Response 200 (JObj [(''result'', JStr ''Memory allocated successfully'')])
         | Some e \<Rightarrow> Raised (Exn ''MemoryError'' (''Failed to allocate memory: '' @ e)))
      else if error_type = ''file_not_found'' then
        (case open_file env of
           Inl e \<Rightarrow> Raised e
         | Inr content \<Rightarrow> Response 200 (JObj [(''content'', JStr content)]))
      else if error_type = ''json_decode_error'' then
        Raised (Exn ''JSONDecodeError'' ''Expecting value: line 1 column 13 (char 12)'')
      else if error_type = ''network_timeout'' then
        (case httpbin env of
           NetTimeout e \<Rightarrow> Raised (Exn ''Timeout'' (''Network request timed out: '' @ e))
         | NetFailure e \<Rightarrow> Raised e
         | NetReply None \<Rightarrow> Raised (Exn ''JSONDecodeError'' [])
         | NetReply (Some j) \<Rightarrow> Response 200 (JObj [(''response'', j)]))
      else if error_type = ''database_error'' then
        (case sqlite env of
           Inl e \<Rightarrow> Raised (Exn ''Exception'' (''Database operation failed: '' @ e))
         | Inr rows \<Rightarrow> Response 200 (JObj [(''result'', rows)]))
      else if error_type = ''validation_error'' then
        Raised (Exn ''ValueError'' ''Invalid age: -5. Age must be positive.'')
      else if error_type = ''custom_exception'' then
        Raised (Exn ''CustomApplicationError'' ''This is a custom application error for testing'')
      else if error_type = ''async_error'' then
        Raised (Exn ''RuntimeError'' ''Async operation failed in background thread'')
      else
        Raised (Exn ''ValueError''
                  (''Unknown error type: '' @ error_type
                   @ ''. Use /api/errors/test to see available types.'')))"

text \<open>
  The endpoint \<open>/api/errors/test\<close>; \<open>type_arg\<close> is the query parameter \<open>type\<close>, \<open>None\<close> when
  the request has none.
\<close>

definition test_errors :: "api_env \<Rightarrow> string option \<Rightarrow> result" where
  "test_errors env type_arg =
     (let error_type = (case type_arg of None \<Rightarrow> ''list'' | Some t \<Rightarrow> t)
      in if error_type = ''list'' then
           Response 200 (JObj [(''available_errors'', JArr (map JStr api_available_errors)),
                               (''usage'', JStr ''/api/errors/test?type=<error_type>''),
                               (''example'', JStr ''/api/errors/test?type=division_by_zero'')])
         else trigger_specific_error env error_type)"

section \<open>The external store\<close>

text \<open>
  The Redis server as the database service sees it through its client: one keyspace whose
  values are strings or hashes of string fields, each key with an optional time to live in
  seconds. Time does not pass in this model, so no key expires. \<open>reachable\<close> says whether
  the server answers; when it does not, every command raises \<open>ConnectionError\<close>.
\<close>

datatype rvalue = RString string | RHash "(string \<times> string) list"

record redis =
  reachable :: bool
  keyspace :: "(string \<times> rvalue \<times> nat option) list"

definition connection_error :: exn where
  "connection_error = Exn ''ConnectionError'' ''Error connecting to Redis''"

definition wrong_type :: exn where
  "wrong_type = Exn ''ResponseError''
     ''WRONGTYPE Operation against a key holding the wrong kind of value''"

text \<open>
  \<open>keys(prefix + '*')\<close>. The server returns the matching keys in no particular order;
  the model lists them in the order of the keyspace, so nothing proved below about a
  listing may be read as a statement about the order of its records.
\<close>

definition r_keys :: "redis \<Rightarrow> string \<Rightarrow> exn + string list" where
  "r_keys r prefix =
     (if \<not> reachable r then Inl connection_error
      else Inr (filter (starts_with prefix) (map fst (keyspace r))))"

definition r_hgetall :: "redis \<Rightarrow> string \<Rightarrow> exn + (string \<times> string) list" where
  "r_hgetall r k =
     (if \<not> reachable r then Inl connection_error
      else case map_of (keyspace r) k of
        None \<Rightarrow> Inr []
      | Some (RHash flds, ttl) \<Rightarrow> Inr flds
      | Some (RString s, ttl) \<Rightarrow> Inl wrong_type)"

definition set_fields :: "(string \<times> string) list \<Rightarrow> (string \<times> string) list \<Rightarrow> (string \<times> string) list" where
  "set_fields old new = foldl (\<lambda>flds (f, v). AList.update f v flds) old new"

definition r_hset :: "redis \<Rightarrow> string \<Rightarrow> (string \<times> string) list \<Rightarrow> exn + redis" where
  \<comment> \<open>\<open>hset(k, mapping=...)\<close>: the fields given are set, the others and the time to live are kept\<close>
  "r_hset r k mapping =
     (if \<not> reachable r then Inl connection_error
      else case map_of (keyspace r) k of
        None \<Rightarrow> Inr (r\<lparr>keyspace := AList.update k (RHash (set_fields [] mapping), None) (keyspace r)\<rparr>)
      | Some (RHash flds, ttl) \<Rightarrow>
          Inr (r\<lparr>keyspace := AList.update k (RHash (set_fields flds mapping), ttl) (keyspace r)\<rparr>)
      | Some (RString s, ttl) \<Rightarrow> Inl wrong_type)"

definition r_expire :: "redis \<Rightarrow> string \<Rightarrow> nat \<Rightarrow> exn + redis" where
  "r_expire r k seconds =
     (if \<not> reachable r then Inl connection_error
      else case map_of (keyspace r) k of
        None \<Rightarrow> Inr r
      | Some (v, ttl) \<Rightarrow> Inr (r\<lparr>keyspace := AList.update k (v, Some seconds) (keyspace r)\<rparr>))"

definition r_exists :: "redis \<Rightarrow> string \<Rightarrow> exn + bool" where
  "r_exists r k =
     (if \<not> reachable r then Inl connection_error
      else Inr (map_of (keyspace r) k \<noteq> None))"

definition r_delete :: "redis \<Rightarrow> string \<Rightarrow> exn + redis" where
  "r_delete r k =
     (if \<not> reachable r then Inl connection_error
      else Inr (r\<lparr>keyspace := AList.delete k (keyspace r)\<rparr>))"

definition r_get :: "redis \<Rightarrow> string \<Rightarrow> exn + string option" where
  "r_get r k =
     (if \<not> reachable r then Inl connection_error
      else case map_of (keyspace r) k of
        None \<Rightarrow> Inr None
      | Some (RString s, ttl) \<Rightarrow> Inr (Some s)
      | Some (RHash flds, ttl) \<Rightarrow> Inl wrong_type)"

definition r_set :: "redis \<Rightarrow> string \<Rightarrow> string \<Rightarrow> exn + redis" where
  \<comment> \<open>\<open>set\<close> replaces a value of any kind and clears the time to live\<close>
  "r_set r k v =
     (if \<not> reachable r then Inl connection_error
      else Inr (r\<lparr>keyspace := AList.update k (RString v, None) (keyspace r)\<rparr>))"

text \<open>
  The client encodes a value before it is sent: a \<open>str\<close> as its UTF-8 text, an \<open>int\<close>
  or a \<open>float\<close> by its \<open>repr\<close>. It raises \<open>UnicodeEncodeError\<close> for a \<open>str\<close> that
  cannot be encoded and \<open>DataError\<close> for \<open>None\<close>, a \<open>bool\<close>, a list or a dict
  (\<open>None\<close> here for both).
\<close>

fun redis_encode :: "pyrt \<Rightarrow> json \<Rightarrow> string option" where
  "redis_encode rt (JStr s) = (if utf8_ok rt s then Some s else None)"
| "redis_encode rt (JInt n) = Some (str_int n)"
| "redis_encode rt (JFloat q) = Some (float_repr rt q)"
| "redis_encode rt v = None"

text \<open>
  A pipeline of the client: \<open>multi\<close> and the commands issued after it are only queued in
  the client; \<open>execute\<close> sends the queue, \<open>reset\<close> drops it.
\<close>

record pipeline =
  explicit_transaction :: bool
  command_stack :: "(string \<times> string) list"

definition new_pipeline :: pipeline where
  "new_pipeline = \<lparr>explicit_transaction = False, command_stack = []\<rparr>"

definition pipe_multi :: "pipeline \<Rightarrow> exn + pipeline" where
  "pipe_multi p =
     (if explicit_transaction p then Inl (Exn ''RedisError'' ''Cannot issue nested calls to MULTI'')
      else if command_stack p \<noteq> [] then
        Inl (Exn ''RedisError'' ''Commands without an initial WATCH have already been issued'')
      else Inr (p\<lparr>explicit_transaction := True\<rparr>))"

definition pipe_set :: "pipeline \<Rightarrow> string \<Rightarrow> string \<Rightarrow> pipeline" where
  "pipe_set p k v = p\<lparr>command_stack := command_stack p @ [(k, v)]\<rparr>"

definition pipe_reset :: "pipeline \<Rightarrow> pipeline" where
  "pipe_reset p = p\<lparr>explicit_transaction := False, command_stack := []\<rparr>"

fun run_sets :: "redis \<Rightarrow> (string \<times> string) list \<Rightarrow> exn + redis" where
  "run_sets r [] = Inr r"
| "run_sets r ((k, v) # cmds) =
     (case r_set r k v of Inl e \<Rightarrow> Inl e | Inr r' \<Rightarrow> run_sets r' cmds)"

definition pipe_execute :: "redis \<Rightarrow> pipeline \<Rightarrow> exn + redis" where
  "pipe_execute r p = run_sets r (command_stack p)"

section \<open>The database service (applications/database/app.py)\<close>

text \<open>
  The module's globals. \<open>redis_client\<close> is set once, when the module is loaded: the client
  if the first \<open>ping\<close> succeeded, \<open>None\<close> otherwise. \<open>memory_users\<close> is the in-process
  dict, \<open>memory_counter\<close> the next id to hand out.
\<close>

record db_state =
  redis_client :: "redis option"
  memory_users :: "(pykey \<times> json) list"
  memory_counter :: json

definition db_init :: "redis \<Rightarrow> db_state" where
  "db_init r =
     \<lparr>redis_client = (if reachable r then Some r else None),
      memory_users = [],
      memory_counter = JInt 1\<rparr>"

definition storage :: "db_state \<Rightarrow> json" where
  \<comment> \<open>\<open>'redis' if redis_client else 'memory'\<close>\<close>
  "storage st = JStr (if redis_client st \<noteq> None then ''redis'' else ''memory'')"

text \<open>The record that \<open>get_users\<close> and \<open>get_user\<close> rebuild from the fields of a hash.\<close>

definition user_of_hash :: "pyrt \<Rightarrow> (string \<times> string) list \<Rightarrow> exn + json" where
  "user_of_hash rt user_data =
     (case (case map_of user_data ''id'' of None \<Rightarrow> Some 0 | Some s \<Rightarrow> py_int s) of
        None \<Rightarrow> Inl (Exn ''ValueError'' ''invalid literal for int() with base 10'')
      | Some i \<Rightarrow>
          (case (case map_of user_data ''created_at'' of
                   None \<Rightarrow> Some 0
                 | Some s \<Rightarrow> float_of_str rt s) of
             None \<Rightarrow> Inl (Exn ''ValueError'' ''could not convert string to float'')
           | Some t \<Rightarrow>
               Inr (JObj [(''id'', JInt i),
                          (''name'', JStr (case map_of user_data ''name'' of None \<Rightarrow> [] | Some s \<Rightarrow> s)),
                          (''email'', JStr (case map_of user_data ''email'' of None \<Rightarrow> [] | Some s \<Rightarrow> s)),
                          (''created_at'', JFloat t)])))"

text \<open>The loop of \<open>get_users\<close> over the keys found.\<close>

fun collect_users :: "pyrt \<Rightarrow> redis \<Rightarrow> string list \<Rightarrow> exn + json list" where
  "collect_users rt r [] = Inr []"
| "collect_users rt r (k # ks) =
     (case r_hgetall r k of
        Inl e \<Rightarrow> Inl e
      | Inr user_data \<Rightarrow>
          if user_data \<noteq> [] then
            (case user_of_hash rt user_data of
               Inl e \<Rightarrow> Inl e
             | Inr u \<Rightarrow>
                 (case collect_users rt r ks of
                    Inl e \<Rightarrow> Inl e
                  | Inr us \<Rightarrow> Inr (u # us)))
          else collect_users rt r ks)"

definition db_get_users :: "pyrt \<Rightarrow> db_state \<Rightarrow> result" where
  "db_get_users rt st =
     (case (case redis_client st of
              Some r \<Rightarrow>
                (case r_keys r ''user:'' of
                   Inl e \<Rightarrow> Inl e
                 | Inr user_keys \<Rightarrow> collect_users rt r user_keys)
            | None \<Rightarrow> Inr (map snd (memory_users st))) of
        Inl e \<Rightarrow> Response 500 (JObj [(''error'', JStr ''Failed to fetch users'')])
      | Inr us \<Rightarrow>
          Response 200 (JObj [(''users'', JArr us),
                              (''count'', JInt (int (length us))),
                              (''source'', JStr ''database-service''),
                              (''storage'', storage st)]))"

text \<open>
  The store step of \<open>create_user\<close> against the external store. The key
  \<open>f"user:{user_id}"\<close> is formed first, but \<open>hset\<close> encodes every value of the mapping
  before anything is sent and raises for a value it cannot encode, so the text of the key is
  needed only when the id is a \<open>str\<close>, an \<open>int\<close> or a \<open>float\<close>, where \<open>str\<close> and the
  client's encoding give the same text.
\<close>

definition store_external ::
  "pyrt \<Rightarrow> redis \<Rightarrow> json \<Rightarrow> json \<Rightarrow> json \<Rightarrow> json \<Rightarrow> exn + redis" where
  "store_external rt r user_id name email created_at =
     (case (redis_encode rt user_id, redis_encode rt name,
            redis_encode rt email, redis_encode rt created_at) of
        (Some i, Some n, Some e, Some c) \<Rightarrow>
          (let user_key = ''user:'' @ i in
           case r_hset r user_key [(''id'', i), (''name'', n), (''email'', e), (''created_at'', c)] of
             Inl ex \<Rightarrow> Inl ex
           | Inr r1 \<Rightarrow> r_expire r1 user_key 3600)
      | _ \<Rightarrow> Inl (Exn ''DataError'' ''Invalid input''))"

definition create_failed :: result where
  "create_failed = Response 500 (JObj [(''error'', JStr ''Failed to create user'')])"

definition name_required :: result where
  "name_required = Response 400 (JObj [(''error'', JStr ''Name is required'')])"

text \<open>
  The store step of \<open>create_user\<close> against the in-process dict: the record is stored
  first, then the counter is moved. The result is the exception raised, if any, and the state
  at that point.
\<close>

definition store_memory :: "pyrt \<Rightarrow> db_state \<Rightarrow> json \<Rightarrow> json \<Rightarrow> exn option \<times> db_state" where
  "store_memory rt st user_id user =
     (case py_key user_id of
        None \<Rightarrow> (Some (Exn ''TypeError'' ''unhashable type''), st)
      | Some k \<Rightarrow>
          (let st1 = st\<lparr>memory_users := AList.update k user (memory_users st)\<rparr>
           in case py_max_add_one rt (memory_counter st) user_id of
                Inl e \<Rightarrow> (Some e, st1)
              | Inr c \<Rightarrow> (None, st1\<lparr>memory_counter := c\<rparr>)))"

definition store_user ::
  "pyrt \<Rightarrow> db_state \<Rightarrow> json \<Rightarrow> json \<Rightarrow> json \<Rightarrow> json \<Rightarrow> exn option \<times> db_state" where
  "store_user rt st user_id name email created_at =
     (case redis_client st of
        Some r \<Rightarrow>
          (case store_external rt r user_id name email created_at of
             Inl e \<Rightarrow> (Some e, st)
           | Inr r' \<Rightarrow> (None, st\<lparr>redis_client := Some r'\<rparr>))
      | None \<Rightarrow>
          store_memory rt st user_id
            (JObj [(''id'', user_id), (''name'', name),
                   (''email'', email), (''created_at'', created_at)]))"

text \<open>
  \<open>create_user\<close>; \<open>data\<close> is what \<open>request.get_json()\<close> returned, as in the API
  service. The test of the body is outside the \<open>try\<close>; everything after it is inside, so
  an exception there gives the 500 response, with the state as it was when the exception
  was raised.
\<close>

definition db_create_user :: "pyrt \<Rightarrow> db_state \<Rightarrow> json \<Rightarrow> rat \<Rightarrow> result \<times> db_state" where
  "db_create_user rt st data now =
     (if \<not> py_truthy data then (name_required, st)
      else case py_in ''name'' data of
        Inl e \<Rightarrow> (Raised e, st)
      | Inr False \<Rightarrow> (name_required, st)
      | Inr True \<Rightarrow>
          (case py_get data ''id'' (memory_counter st) of
             Inl e \<Rightarrow> (create_failed, st)
           | Inr user_id \<Rightarrow>
          (case py_getitem data ''name'' of
             Inl e \<Rightarrow> (create_failed, st)
           | Inr name \<Rightarrow>
          (case py_get data ''email'' (JStr []) of
             Inl e \<Rightarrow> (create_failed, st)
           | Inr email \<Rightarrow>
          (case py_get data ''created_at'' (JFloat now) of
             Inl e \<Rightarrow> (create_failed, st)
           | Inr created_at \<Rightarrow>
          (case store_user rt st user_id name email created_at of
             (Some e, st') \<Rightarrow> (create_failed, st')
           | (None, st') \<Rightarrow>
               (Response 201
                  (JObj [(''user'', JObj [(''id'', user_id), (''name'', name),
                                          (''email'', email), (''created_at'', created_at)]),
                         (''storage'', storage st)]),
                st')))))))"

definition user_not_found :: result where
  "user_not_found = Response 404 (JObj [(''error'', JStr ''User not found'')])"

text \<open>
  The view functions \<open>get_user\<close> and \<open>delete_user\<close>, as functions of the \<open>user_id\<close> they
  are called with. They are bound to the rule \<open>/database/users/<int:user_id>\<close>, whose
  converter accepts digits only: the router calls them with non-negative integers, and
  answers a path with a negative number itself (\<open>route_get_user\<close> and
  \<open>route_delete_user\<close> below).
\<close>

definition db_get_user :: "pyrt \<Rightarrow> db_state \<Rightarrow> int \<Rightarrow> result" where
  "db_get_user rt st user_id =
     (case redis_client st of
        Some r \<Rightarrow>
          (case r_hgetall r (''user:'' @ str_int user_id) of
             Inl e \<Rightarrow> Response 500 (JObj [(''error'', JStr ''Failed to fetch user'')])
           | Inr user_data \<Rightarrow>
               if user_data = [] then user_not_found
               else (case user_of_hash rt user_data of
                       Inl e \<Rightarrow> Response 500 (JObj [(''error'', JStr ''Failed to fetch user'')])
                     | Inr user \<Rightarrow>
                         Response 200 (JObj [(''user'', user), (''storage'', storage st)])))
      | None \<Rightarrow>
          (case map_of (memory_users st) (KNum (of_int user_id)) of
             None \<Rightarrow> user_not_found
           | Some user \<Rightarrow>
               if \<not> py_truthy user then user_not_found
               else Response 200 (JObj [(''user'', user), (''storage'', storage st)])))"

definition user_deleted :: "db_state \<Rightarrow> int \<Rightarrow> result" where
  "user_deleted st user_id =
     Response 200 (JObj [(''message'', JStr (''User '' @ str_int user_id @ '' deleted'')),
                         (''storage'', storage st)])"

definition db_delete_user :: "db_state \<Rightarrow> int \<Rightarrow> result \<times> db_state" where
  "db_delete_user st user_id =
     (case redis_client st of
        Some r \<Rightarrow>
          (let user_key = ''user:'' @ str_int user_id in
           case r_exists r user_key of
             Inl e \<Rightarrow> (Response 500 (JObj [(''error'', JStr ''Failed to delete user'')]), st)
           | Inr False \<Rightarrow> (user_not_found, st)
           | Inr True \<Rightarrow>
               (case r_delete r user_key of
                  Inl e \<Rightarrow> (Response 500 (JObj [(''error'', JStr ''Failed to delete user'')]), st)
                | Inr r' \<Rightarrow> (user_deleted st user_id, st\<lparr>redis_client := Some r'\<rparr>)))
      | None \<Rightarrow>
          if map_of (memory_users st) (KNum (of_int user_id)) = None then (user_not_found, st)
          else (user_deleted st user_id,
                st\<lparr>memory_users := AList.delete (KNum (of_int user_id)) (memory_users st)\<rparr>))"

text \<open>
  The two requests on \<open>/database/users/<path_id>\<close> for an integer \<open>path_id\<close>, as the
  router dispatches them: no rule matches a negative number, and the framework answers 404
  with its own page, without calling a view function. The page is HTML, not JSON and not
  the application's \<open>User not found\<close>; only its status is used below, and its body stands
  here as the text \<open>Not Found\<close>.
\<close>

definition route_not_found :: result where
  "route_not_found = Response 404 (JStr ''Not Found'')"

definition route_get_user :: "pyrt \<Rightarrow> db_state \<Rightarrow> int \<Rightarrow> result" where
  "route_get_user rt st path_id =
     (if path_id < 0 then route_not_found else db_get_user rt st path_id)"

definition route_delete_user :: "db_state \<Rightarrow> int \<Rightarrow> result \<times> db_state" where
  "route_delete_user st path_id =
     (if path_id < 0 then (route_not_found, st) else db_delete_user st path_id)"

text \<open>
  What the fault scenarios of the database service meet outside the process and outside the
  store's keyspace: the exception of the \<open>ping\<close> to the host that should not exist
  (\<open>None\<close> if the ping is answered), and the exception of the \<open>DEBUG SLEEP\<close> command
  (\<open>None\<close> if the command returns).
\<close>

record db_env =
  fake_ping :: "exn option"
  debug_sleep :: "exn option"

definition db_available_errors :: "string list" where
  "db_available_errors =
     [''redis_connection_error'', ''redis_timeout'', ''redis_memory_error'', ''data_corruption'',
      ''serialization_error'', ''key_not_found'', ''transaction_rollback'',
      ''connection_pool_exhausted'', ''disk_full'', ''permission_denied'']"

text \<open>
  The \<open>try\<close> block of the \<open>transaction_rollback\<close> scenario: it queues \<open>MULTI\<close> and two
  \<open>SET\<close> commands in the pipeline and raises before \<open>execute\<close> is reached. The result is
  the exception and the pipeline as it is when the handler starts.
\<close>

definition transaction_body :: "pipeline \<Rightarrow> exn \<times> pipeline" where
  "transaction_body p =
     (case pipe_multi p of
        Inl e \<Rightarrow> (e, p)
      | Inr p1 \<Rightarrow>
          (let p2 = pipe_set p1 ''tx_key1'' ''value1'';
               p3 = pipe_set p2 ''tx_key2'' ''value2''
           in (Exn ''Exception'' ''Transaction failed at step 2'', p3)))"

text \<open>\<open>str(e)\<close> of an exception, as the f-strings of the scenarios use it.\<close>

fun exn_text :: "exn \<Rightarrow> string" where
  "exn_text (Exn cls msg) = msg"

text \<open>
  \<open>trigger_database_error\<close>, branch by branch in the order of the source. A scenario that
  writes to the store returns the state with that write. In \<open>data_corruption\<close> the value
  read back is the text just written, which \<open>json.loads\<close> rejects. In
  \<open>serialization_error\<close> the call of \<open>pickle.dumps\<close> raises for the class defined
  inside the function, before the file handle is looked at: an \<open>AttributeError\<close>, not the
  \<open>TypeError\<close> that the comment in the source names. The text of a \<open>KeyError\<close> is the
  \<open>repr\<close> of its argument; the text of an \<open>OSError\<close> built from an error number starts
  with that number.
\<close>

definition trigger_database_error :: "db_env \<Rightarrow> db_state \<Rightarrow> string \<Rightarrow> result \<times> db_state" where
  "trigger_database_error env st error_type =
     (if error_type = ''redis_connection_error'' then
        (case fake_ping env of
           Some e \<Rightarrow> (Raised e, st)
         | None \<Rightarrow> (Response 200 (JObj [(''result'', JStr ''Redis connected'')]), st))
      else if error_type = ''redis_timeout'' then
        (case redis_client st of
           Some r \<Rightarrow>
             (case debug_sleep env of
                Some e \<Rightarrow> (Raised e, st)
              | None \<Rightarrow> (Response 200 (JObj [(''result'', JStr ''Redis operation completed'')]), st))
         | None \<Rightarrow>
             (Raised (Exn ''TimeoutError'' ''Redis timeout simulation - Redis not available''), st))
      else if error_type = ''redis_memory_error'' then
        (case redis_client st of
           Some r \<Rightarrow>
             (case r_set r ''large_key'' (replicate (100 * 1024 * 1024) CHR ''x'') of
                Inl e \<Rightarrow> (Raised (Exn ''MemoryError'' (''Redis memory error: '' @ exn_text e)), st)
              | Inr r' \<Rightarrow>
                  (Response 200 (JObj [(''result'', JStr ''Large value stored'')]),
                   st\<lparr>redis_client := Some r'\<rparr>))
         | None \<Rightarrow>
             (Raised (Exn ''MemoryError'' ''Redis memory error simulation - Redis not available''), st))
      else if error_type = ''data_corruption'' then
        (case redis_client st of
           Some r \<Rightarrow>
             (case r_set r ''corrupted_user'' ''invalid:json:data:structure'' of
                Inl e \<Rightarrow> (Raised e, st)
              | Inr r' \<Rightarrow>
                  (case r_get r' ''corrupted_user'' of
                     Inl e \<Rightarrow> (Raised e, st\<lparr>redis_client := Some r'\<rparr>)
                   | Inr corrupted_data \<Rightarrow>
                       (Raised (Exn ''JSONDecodeError'' ''Expecting value: line 1 column 1 (char 0)''),
                        st\<lparr>redis_client := Some r'\<rparr>)))
         | None \<Rightarrow> (Raised (Exn ''ValueError'' ''Data corruption detected in user data''), st))
      else if error_type = ''serialization_error'' then
        (Raised (Exn ''AttributeError''
                   (''Can't pickle local object 'trigger_database_error.<locals>.UnserializableObject''
                    @ [CHR 0x27])), st)
      else if error_type = ''key_not_found'' then
        (case redis_client st of
           Some r \<Rightarrow>
             (case r_get r ''critical_config_key'' of
                Inl e \<Rightarrow> (Raised e, st)
              | Inr None \<Rightarrow>
                  (Raised (Exn ''KeyError''
                     (CHR 0x22
                      # ''Critical configuration key 'critical_config_key' not found in database''
                      @ [CHR 0x22])), st)
              | Inr (Some critical_data) \<Rightarrow>
                  (Response 200 (JObj [(''data'', JStr critical_data)]), st))
         | None \<Rightarrow>
             (Raised (Exn ''KeyError''
                        (CHR 0x27 # ''Critical key not found - Redis not available'' @ [CHR 0x27])),
              st))
      else if error_type = ''transaction_rollback'' then
        (case redis_client st of
           Some r \<Rightarrow>
             (case transaction_body new_pipeline of
                (e, pipe) \<Rightarrow>
                  (let pipe' = pipe_reset pipe
                   in (Raised (Exn ''RuntimeError''
                                 (''Transaction rolled back due to error: '' @ exn_text e)), st)))
         | None \<Rightarrow>
             (Raised (Exn ''RuntimeError'' ''Transaction rollback simulation - Redis not available''), st))
      else if error_type = ''connection_pool_exhausted'' then
        (Raised (Exn ''ConnectionError'' ''Connection pool exhausted - all connections in use''), st)
      else if error_type = ''disk_full'' then
        (Raised (Exn ''OSError''
                   ''[Errno 28] No space left on device - cannot write to database''), st)
      else if error_type = ''permission_denied'' then
        (Raised (Exn ''PermissionError''
                   ''[Errno 13] Permission denied - cannot access database files''), st)
      else
        (Raised (Exn ''ValueError''
                   (''Unknown database error type: '' @ error_type
                    @ ''. Use /database/errors/test to see available types.'')), st))"

text \<open>The endpoint \<open>/database/errors/test\<close>.\<close>

definition test_database_errors ::
  "db_env \<Rightarrow> db_state \<Rightarrow> string option \<Rightarrow> result \<times> db_state" where
  "test_database_errors env st type_arg =
     (let error_type = (case type_arg of None \<Rightarrow> ''list'' | Some t \<Rightarrow> t)
      in if error_type = ''list'' then
           (Response 200 (JObj [(''available_errors'', JArr (map JStr db_available_errors)),
                                (''usage'', JStr ''/database/errors/test?type=<error_type>''),
                                (''example'', JStr ''/database/errors/test?type=redis_connection_error'')]),
            st)
         else trigger_database_error env st error_type)"

section \<open>Histories of requests\<close>

text \<open>
  The four requests on user records that the database service answers, and the service
  run over a list of them: the responses in order, and the state left behind. A get or a
  delete names the integer written in its path.
\<close>

datatype db_request = Create json rat | Delete int | Get int | List

fun db_handle :: "pyrt \<Rightarrow> db_state \<Rightarrow> db_request \<Rightarrow> result \<times> db_state" where
  "db_handle rt st (Create data now) = db_create_user rt st data now"
| "db_handle rt st (Delete path_id) = route_delete_user st path_id"
| "db_handle rt st (Get path_id) = (route_get_user rt st path_id, st)"
| "db_handle rt st List = (db_get_users rt st, st)"

fun db_run :: "pyrt \<Rightarrow> db_state \<Rightarrow> db_request list \<Rightarrow> result list \<times> db_state" where
  "db_run rt st [] = ([], st)"
| "db_run rt st (q # qs) =
     (case db_handle rt st q of
        (res, st1) \<Rightarrow> (case db_run rt st1 qs of (rs, st2) \<Rightarrow> (res # rs, st2)))"

text \<open>
  The id a request body supplies, if it supplies one, and whether a request supplies no id
  or an integer one.
\<close>

fun supplied_id :: "json \<Rightarrow> json option" where
  "supplied_id (JObj kvs) = obj_get kvs ''id''"
| "supplied_id v = None"

fun integer_id :: "db_request \<Rightarrow> bool" where
  "integer_id (Create data now) =
     (case supplied_id data of None \<Rightarrow> True | Some (JInt n) \<Rightarrow> True | Some v \<Rightarrow> False)"
| "integer_id q = True"

text \<open>Whether a request supplies no float as id.\<close>

fun no_float_id :: "db_request \<Rightarrow> bool" where
  "no_float_id (Create data now) =
     (case supplied_id data of Some (JFloat q) \<Rightarrow> False | _ \<Rightarrow> True)"
| "no_float_id q = True"

text \<open>The id of the record in the 201 response of a create.\<close>

definition created_id :: "result \<Rightarrow> json option" where
  "created_id res =
     (case res of
        Response code body \<Rightarrow>
          if code = 201 then
            (case py_getitem body ''user'' of
               Inr user \<Rightarrow> (case py_getitem user ''id'' of Inr i \<Rightarrow> Some i | Inl e \<Rightarrow> None)
             | Inl e \<Rightarrow> None)
          else None
      | Raised e \<Rightarrow> None)"

text \<open>The integer ids of the records created in a list of responses, in order.\<close>

definition created_ints :: "result list \<Rightarrow> int list" where
  "created_ints rs =
     List.map_filter
       (\<lambda>res. case created_id res of Some (JInt n) \<Rightarrow> Some n | _ \<Rightarrow> None) rs"

section \<open>Notions used in the proofs\<close>

text \<open>
  The in-process store with its counter an integer above a given set of numbers and above
  every key of the dict that is a number.
\<close>

definition counter_above :: "rat set \<Rightarrow> db_state \<Rightarrow> bool" where
  "counter_above ids st \<longleftrightarrow>
     redis_client st = None
     \<and> (\<exists>c. memory_counter st = JInt c \<and> (\<forall>q\<in>ids. q < of_int c)
            \<and> (\<forall>k\<in>fst ` set (memory_users st). \<forall>q. k = KNum q \<longrightarrow> q < of_int c))"

text \<open>The numbers that are ids of the records created in a list of responses.\<close>

definition created_set :: "result list \<Rightarrow> rat set" where
  "created_set rs = {q. \<exists>res\<in>set rs. \<exists>i. created_id res = Some i \<and> num_val i = Some q}"

text \<open>The number that a string of decimal digits, read after \<open>acc\<close>, stands for.\<close>

definition dec_value :: "nat \<Rightarrow> string \<Rightarrow> nat" where
  "dec_value acc ds = foldl (\<lambda>a c. 10 * a + digit_val c) acc ds"

section \<open>Sample inputs\<close>

definition example_api_env :: api_env where
  "example_api_env =
     \<lparr>in_main_thread = True, alarm_fires = False, alloc_error = None,
      open_file = Inl (Exn ''FileNotFoundError'' ''No such file or directory''),
      httpbin = NetTimeout ''Read timed out.'',
      sqlite = Inl ''unable to open database file''\<rparr>"

definition example_db_env :: db_env where
  "example_db_env =
     \<lparr>fake_ping = Some (Exn ''ConnectionError'' ''Name or service not known''),
      debug_sleep = Some (Exn ''TimeoutError'' ''Timeout reading from socket'')\<rparr>"

definition example_rt :: pyrt where
  \<comment> \<open>a runtime whose only float is 1.5 and that can encode every text\<close>
  "example_rt =
     \<lparr>float_repr = (\<lambda>q. ''1.5''), float_of_str = (\<lambda>s. Some (3 / 2)), float_round = (\<lambda>q. q),
      utf8_ok = (\<lambda>s. True)\<rparr>"

definition rounding_rt :: pyrt where
  \<comment> \<open>a runtime that rounds the one sum \<open>2^53 + 1\<close> as double precision does, to \<open>2^53\<close>\<close>
  "rounding_rt =
     \<lparr>float_repr = (\<lambda>q. ''9007199254740992.0''),
      float_of_str = (\<lambda>s. Some 9007199254740992),
      float_round = (\<lambda>q. if q = 9007199254740993 then 9007199254740992 else q),
      utf8_ok = (\<lambda>s. True)\<rparr>"

definition fallback_start :: db_state where
  \<comment> \<open>the service started while the store did not answer\<close>
  "fallback_start = db_init \<lparr>reachable = False, keyspace = []\<rparr>"

definition external_start :: db_state where
  \<comment> \<open>the service started against an empty store\<close>
  "external_start = db_init \<lparr>reachable = True, keyspace = []\<rparr>"

definition ada :: json where
  "ada = JObj [(''id'', JInt 1), (''name'', JStr ''Ada''), (''email'', JStr []),
               (''created_at'', JFloat (3 / 2))]"

definition bob :: json where
  "bob = JObj [(''id'', JInt 2), (''name'', JStr ''Bob''), (''email'', JStr ''bob@example.org''),
               (''created_at'', JFloat (3 / 2))]"

definition sample_history :: "db_request list" where
  "sample_history =
     [Create (JObj [(''name'', JStr ''Ada'')]) (3 / 2),
      Create (JObj [(''name'', JStr ''Bob''), (''id'', JInt 7)]) (3 / 2),
      Delete 7,
      Create (JObj [(''name'', JStr ''Eve''), (''id'', JStr ''abc'')]) (3 / 2),
      Create (JObj [(''name'', JStr ''Cy'')]) (3 / 2)]"

definition ada_stored_as_7 :: db_state where
  \<comment> \<open>the in-process store after a first create that supplied the id 7\<close>
  "ada_stored_as_7 =
     \<lparr>redis_client = None,
      memory_users = [(KNum 7, JObj [(''id'', JInt 7), (''name'', JStr ''Ada''),
                                     (''email'', JStr []), (''created_at'', JFloat (3 / 2))])],
      memory_counter = JInt 8\<rparr>"

section \<open>Properties\<close>

subsection \<open>Auxiliary facts\<close>

lemma obj_get_None_iff: "obj_get kvs k = None \<longleftrightarrow> k \<notin> fst ` set kvs"
  by (simp add: obj_get_def map_of_eq_None_iff)

lemma obj_get_Some_in: "obj_get kvs k = Some v \<Longrightarrow> k \<in> fst ` set kvs"
  using obj_get_None_iff [of kvs k] by auto

lemma validation_400:
  assumes "\<not> py_truthy data \<or> py_in ''name'' data = Inr False"
  shows "api_create_user st data now d = (name_required, st)"
    and "db_create_user rt dst data now = (name_required, dst)"
  using assms by (auto simp: api_create_user_def db_create_user_def name_required_def)

lemma api_create_ok:
  assumes "obj_get kvs ''name'' = Some name"
  shows "api_create_user st (JObj kvs) now d =
          (Response 201 (JObj [(''id'', JInt (user_counter st)), (''name'', name),
                 (''email'', (case obj_get kvs ''email'' of None \<Rightarrow> JStr [] | Some e \<Rightarrow> e)),
                 (''created_at'', JFloat now)]),
           st\<lparr>users := users st @ [JObj [(''id'', JInt (user_counter st)), (''name'', name),
                 (''email'', (case obj_get kvs ''email'' of None \<Rightarrow> JStr [] | Some e \<Rightarrow> e)),
                 (''created_at'', JFloat now)]],
              user_counter := user_counter st + 1\<rparr>)"
proof -
  have "''name'' \<in> fst ` set kvs" using assms by (rule obj_get_Some_in)
  moreover from this have "kvs \<noteq> []" by auto
  ultimately show ?thesis using assms
    by (simp add: api_create_user_def Let_def)
qed

lemma db_create_memory_ok:
  assumes "redis_client st = None" "memory_counter st = JInt c"
    "obj_get kvs ''name'' = Some name"
    "(case obj_get kvs ''id'' of None \<Rightarrow> JInt c | Some v \<Rightarrow> v) = JInt n"
  shows "db_create_user rt st (JObj kvs) now =
          (Response 201 (JObj [(''user'', JObj [(''id'', JInt n), (''name'', name),
                 (''email'', (case obj_get kvs ''email'' of None \<Rightarrow> JStr [] | Some e \<Rightarrow> e)),
                 (''created_at'', (case obj_get kvs ''created_at'' of None \<Rightarrow> JFloat now | Some t \<Rightarrow> t))]),
                 (''storage'', JStr ''memory'')]),
           st\<lparr>memory_users := AList.update (KNum (of_int n)) (JObj [(''id'', JInt n), (''name'', name),
                 (''email'', (case obj_get kvs ''email'' of None \<Rightarrow> JStr [] | Some e \<Rightarrow> e)),
                 (''created_at'', (case obj_get kvs ''created_at'' of None \<Rightarrow> JFloat now | Some t \<Rightarrow> t))])
                  (memory_users st),
              memory_counter := JInt (max c n + 1)\<rparr>)"
proof -
  have "''name'' \<in> fst ` set kvs" using assms(3) by (rule obj_get_Some_in)
  moreover from this have "kvs \<noteq> []" by auto
  ultimately show ?thesis using assms
    by (simp add: db_create_user_def store_user_def store_memory_def py_max_add_one_def
          storage_def Let_def max_def)
qed

text \<open>\<open>int(str(i))\<close> is \<open>i\<close>.\<close>

lemma digit_char_props:
  "d < 10 \<Longrightarrow> is_digit (digit_char d) \<and> digit_val (digit_char d) = d \<and> \<not> is_space (digit_char d)
     \<and> digit_char d \<noteq> CHR ''-'' \<and> digit_char d \<noteq> CHR ''+''"
proof -
  assume "d < 10"
  then have "d \<in> {0, 1, 2, 3, 4, 5, 6, 7, 8, 9}" by auto
  then show ?thesis
    by (auto simp: digit_char_def is_digit_def digit_val_def is_space_def)
qed

lemma is_digit_props: "is_digit c \<Longrightarrow> \<not> is_space c \<and> c \<noteq> CHR ''-'' \<and> c \<noteq> CHR ''+'' \<and> c \<noteq> CHR ''_''"
  by (auto simp: is_digit_def is_space_def)

lemma dec_rest_digits:
  "\<forall>c\<in>set ds. is_digit c \<Longrightarrow> dec_rest acc ds = Some (dec_value acc ds)"
  by (induction acc ds rule: dec_rest.induct) (auto simp: dec_value_def)

lemma str_nat_digits: "str_nat n \<noteq> [] \<and> (\<forall>c\<in>set (str_nat n). is_digit c)"
proof (induction n rule: str_nat.induct)
  case (1 n)
  show ?case
  proof (cases "n < 10")
    case True
    then show ?thesis using digit_char_props [of n] by (simp add: str_nat.simps [of n])
  next
    case False
    then show ?thesis using 1 digit_char_props [of "n mod 10"]
      by (simp add: str_nat.simps [of n])
  qed
qed

lemma dec_value_str_nat: "dec_value 0 (str_nat n) = n"
proof (induction n rule: str_nat.induct)
  case (1 n)
  show ?case
  proof (cases "n < 10")
    case True
    then show ?thesis using digit_char_props [of n]
      by (simp add: str_nat.simps [of n] dec_value_def)
  next
    case False
    then have "dec_value 0 (str_nat (n div 10)) = n div 10" using 1 by simp
    then show ?thesis using False digit_char_props [of "n mod 10"]
      by (simp add: str_nat.simps [of n] dec_value_def)
  qed
qed

lemma dec_digits_str_nat: "dec_digits (str_nat n) = Some n"
proof -
  obtain c cs where s: "str_nat n = c # cs"
    using str_nat_digits [of n] by (cases "str_nat n") auto
  have dig: "is_digit c" "\<forall>x\<in>set cs. is_digit x"
    using str_nat_digits [of n] s by auto
  have "dec_value 0 (c # cs) = dec_value (digit_val c) cs"
    by (simp add: dec_value_def)
  then have "dec_value (digit_val c) cs = n"
    using dec_value_str_nat [of n] s by simp
  then show ?thesis
    using dig s by (simp add: dec_digits_def dec_rest_digits)
qed

lemma py_strip_id:
  assumes "s \<noteq> []" "\<not> is_space (hd s)" "\<not> is_space (last s)"
  shows "py_strip s = s"
proof -
  have a: "dropWhile is_space s = s"
    using assms by (cases s) auto
  obtain xs x where s: "s = xs @ [x]"
    using assms(1) by (cases s rule: rev_cases) auto
  then have "\<not> is_space x" using assms(3) by simp
  then have "dropWhile is_space (rev s) = rev s"
    using s by simp
  then show ?thesis using a by (simp add: py_strip_def)
qed

lemma str_nat_ends: "\<not> is_space (hd (str_nat n)) \<and> \<not> is_space (last (str_nat n))"
proof -
  have ne: "str_nat n \<noteq> []" and all: "\<forall>c\<in>set (str_nat n). is_digit c"
    using str_nat_digits [of n] by auto
  have "hd (str_nat n) \<in> set (str_nat n)" "last (str_nat n) \<in> set (str_nat n)"
    using ne by auto
  then have "is_digit (hd (str_nat n))" "is_digit (last (str_nat n))"
    using all by auto
  then show ?thesis using is_digit_props by blast
qed

lemma py_int_str_int: "py_int (str_int i) = Some i"
proof (cases "i < 0")
  case True
  let ?s = "CHR ''-'' # str_nat (nat (- i))"
  have "\<not> is_space (hd ?s)" by (simp add: is_space_def)
  moreover have "\<not> is_space (last ?s)"
    using str_nat_ends [of "nat (- i)"] str_nat_digits [of "nat (- i)"] by simp
  ultimately have "py_strip ?s = ?s" by (intro py_strip_id) auto
  then have "py_int ?s = map_option (\<lambda>n. - int n) (dec_digits (str_nat (nat (- i))))"
    by (simp add: py_int_def)
  also have "\<dots> = Some (- int (nat (- i)))"
    by (simp only: dec_digits_str_nat option.map)
  also have "\<dots> = Some i" using True by simp
  finally show ?thesis using True by (simp only: str_int_def if_True)
next
  case False
  let ?s = "str_nat (nat i)"
  obtain c cs where s: "?s = c # cs"
    using str_nat_digits [of "nat i"] by (cases ?s) auto
  have "is_digit c" using str_nat_digits [of "nat i"] s by auto
  then have c: "c \<noteq> CHR ''-''" "c \<noteq> CHR ''+''" using is_digit_props by auto
  have "py_strip ?s = ?s"
    using str_nat_ends [of "nat i"] str_nat_digits [of "nat i"] by (intro py_strip_id) auto
  then have strip: "py_strip (c # cs) = c # cs" by (simp only: s)
  have dd: "dec_digits (c # cs) = Some (nat i)"
    using dec_digits_str_nat [of "nat i"] by (simp only: s)
  have "py_int (c # cs) = map_option int (dec_digits (c # cs))"
    unfolding py_int_def strip using c by simp
  also have "\<dots> = Some (int (nat i))" by (simp only: dd option.map)
  also have "\<dots> = Some i" using False by simp
  finally have "py_int ?s = Some i" by (simp only: s)
  then show ?thesis using False by (simp only: str_int_def if_False)
qed

lemma str_int_inj: "str_int i = str_int j \<Longrightarrow> i = j"
proof -
  assume "str_int i = str_int j"
  then have "py_int (str_int i) = py_int (str_int j)" by (rule arg_cong)
  then show "i = j" by (simp only: py_int_str_int option.inject)
qed

lemma create_reads:
  assumes "py_getitem data ''name'' = Inr name"
    "py_get data ''id'' (memory_counter st) = Inr user_id"
    "py_get data ''email'' (JStr []) = Inr email"
    "py_get data ''created_at'' (JFloat now) = Inr created_at"
  shows "db_create_user rt st data now =
     (case store_user rt st user_id name email created_at of
        (Some e, st') \<Rightarrow> (create_failed, st')
      | (None, st') \<Rightarrow>
          (Response 201
             (JObj [(''user'', JObj [(''id'', user_id), (''name'', name),
                                     (''email'', email), (''created_at'', created_at)]),
                    (''storage'', storage st)]),
           st'))"
proof -
  obtain kvs where d: "data = JObj kvs"
    using assms(2) by (cases data) auto
  have "obj_get kvs ''name'' = Some name"
    using assms(1) d by (auto split: option.splits)
  then have "''name'' \<in> fst ` set kvs" by (rule obj_get_Some_in)
  moreover from this have "kvs \<noteq> []" by auto
  ultimately show ?thesis
    using assms unfolding d by (simp add: db_create_user_def)
qed

text \<open>The counter stays above every number handed out or accepted as an id.\<close>

lemma created_id_simps:
  "created_id name_required = None" "created_id create_failed = None"
  "created_id (Raised e) = None" "created_id user_not_found = None"
  "created_id (user_deleted st i) = None"
  "created_id (db_get_user rt st i) = None" "created_id (db_get_users rt st) = None"
  "created_id route_not_found = None" "created_id (route_get_user rt st i) = None"
  by (auto simp: created_id_def name_required_def create_failed_def user_not_found_def
        user_deleted_def db_get_user_def db_get_users_def route_not_found_def
        route_get_user_def split: option.splits sum.splits)

lemma store_memory_int:
  assumes "memory_counter st = JInt c"
  shows "store_memory rt st (JInt n) user =
    (None, st\<lparr>memory_users := AList.update (KNum (of_int n)) user (memory_users st),
              memory_counter := JInt (max c n + 1)\<rparr>)"
  using assms by (simp add: store_memory_def py_max_add_one_def max_def)

lemma created_id_201:
  "created_id (Response 201 (JObj [(''user'', JObj [(''id'', v), (''name'', a), (''email'', b),
                                                    (''created_at'', c)]), (''storage'', s)])) = Some v"
  by (simp add: created_id_def obj_get_def)

lemma store_memory_cases:
  assumes c: "memory_counter st = JInt c" and nf: "\<forall>q. v \<noteq> JFloat q"
  shows "(\<exists>e. store_memory rt st v u = (Some e, st))
       \<or> (\<exists>e k. store_memory rt st v u =
                   (Some e, st\<lparr>memory_users := AList.update k u (memory_users st)\<rparr>)
                 \<and> (\<forall>q. k \<noteq> KNum q))
       \<or> (\<exists>q c'. store_memory rt st v u =
                   (None, st\<lparr>memory_users := AList.update (KNum q) u (memory_users st),
                             memory_counter := JInt c'\<rparr>)
                 \<and> num_val v = Some q \<and> q < of_int c' \<and> c \<le> c')"
proof (cases v)
  case JNull
  have "store_memory rt st JNull u =
          (Some (Exn ''TypeError'' ''> not supported between these instances''),
           st\<lparr>memory_users := AList.update KNone u (memory_users st)\<rparr>)"
    using c by (simp add: store_memory_def py_max_add_one_def)
  then show ?thesis unfolding JNull by blast
next
  case (JBool b)
  then show ?thesis using c
    by (cases b; cases "(1::rat) < of_int c"; cases "(0::rat) < of_int c")
      (auto simp: store_memory_def py_max_add_one_def)
next
  case (JInt n)
  have "(of_int n :: rat) < of_int (max c n + 1)" "c \<le> max c n + 1"
    by (simp_all add: max_def)
  then show ?thesis unfolding JInt using store_memory_int [OF c, of rt n u]
    by (intro disjI2 exI [of _ "of_int n"] exI [of _ "max c n + 1"]) simp
next
  case (JFloat q)
  then show ?thesis using nf by simp
next
  case (JStr s)
  have "store_memory rt st (JStr s) u =
          (Some (Exn ''TypeError'' ''> not supported between these instances''),
           st\<lparr>memory_users := AList.update (KStr s) u (memory_users st)\<rparr>)"
    using c by (simp add: store_memory_def py_max_add_one_def)
  then show ?thesis unfolding JStr by blast
next
  case (JArr xs)
  then show ?thesis by (simp add: store_memory_def)
next
  case (JObj kvs)
  then show ?thesis by (simp add: store_memory_def)
qed

lemma create_memory_cases:
  assumes rc: "redis_client st = None" and c: "memory_counter st = JInt c"
    and nf: "no_float_id (Create data now)"
    and h: "db_create_user rt st data now = (res, st')"
  shows "(st' = st \<and> created_id res = None)
       \<or> (\<exists>k u. st' = st\<lparr>memory_users := AList.update k u (memory_users st)\<rparr>
                 \<and> (\<forall>q. k \<noteq> KNum q) \<and> created_id res = None)
       \<or> (\<exists>q c' u i. st' = st\<lparr>memory_users := AList.update (KNum q) u (memory_users st),
                                memory_counter := JInt c'\<rparr>
                 \<and> created_id res = Some i \<and> num_val i = Some q
                 \<and> q < of_int c' \<and> c \<le> c')"
proof (cases data)
  case (JObj kvs)
  show ?thesis
  proof (cases "obj_get kvs ''name''")
    case None
    then have "py_in ''name'' data = Inr False"
      using JObj by (simp add: obj_get_None_iff)
    then show ?thesis using validation_400(2) [of data rt st now] h
      by (auto simp: created_id_simps)
  next
    case (Some name)
    define v where "v = (case obj_get kvs ''id'' of None \<Rightarrow> JInt c | Some x \<Rightarrow> x)"
    define email where "email = (case obj_get kvs ''email'' of None \<Rightarrow> JStr [] | Some x \<Rightarrow> x)"
    define created_at where
      "created_at = (case obj_get kvs ''created_at'' of None \<Rightarrow> JFloat now | Some x \<Rightarrow> x)"
    define u where "u = JObj [(''id'', v), (''name'', name), (''email'', email),
                             (''created_at'', created_at)]"
    have nfv: "\<forall>q. v \<noteq> JFloat q"
      using nf JObj by (auto simp: v_def split: option.splits json.splits)
    have reads: "py_getitem data ''name'' = Inr name"
      "py_get data ''id'' (memory_counter st) = Inr v"
      "py_get data ''email'' (JStr []) = Inr email"
      "py_get data ''created_at'' (JFloat now) = Inr created_at"
      using JObj Some c by (simp_all add: v_def email_def created_at_def)
    have su: "store_user rt st v name email created_at = store_memory rt st v u"
      using rc by (simp add: store_user_def u_def)
    note cr = create_reads [OF reads, of rt, unfolded su, folded u_def]
    from store_memory_cases [OF c nfv, of rt u]
    consider (fail) e where "store_memory rt st v u = (Some e, st)"
      | (stored) e k where "store_memory rt st v u =
            (Some e, st\<lparr>memory_users := AList.update k u (memory_users st)\<rparr>)"
          "\<forall>q. k \<noteq> KNum q"
      | (ok) q c' where "store_memory rt st v u =
            (None, st\<lparr>memory_users := AList.update (KNum q) u (memory_users st),
                      memory_counter := JInt c'\<rparr>)"
          "num_val v = Some q" "q < of_int c'" "c \<le> c'"
      by blast
    then show ?thesis
    proof cases
      case fail
      then show ?thesis using h cr by (auto simp: created_id_simps)
    next
      case stored
      then have "st' = st\<lparr>memory_users := AList.update k u (memory_users st)\<rparr>"
        and "created_id res = None"
        using h cr by (auto simp: created_id_simps)
      then show ?thesis using stored(2) by blast
    next
      case ok
      then have "st' = st\<lparr>memory_users := AList.update (KNum q) u (memory_users st),
                          memory_counter := JInt c'\<rparr>"
        and "created_id res = Some v"
        using h cr by (auto simp: created_id_201 u_def)
      then show ?thesis using ok(2-4) by blast
    qed
  qed
qed (use h in \<open>auto simp: db_create_user_def created_id_simps split: sum.splits bool.splits if_splits\<close>)

lemma counter_above_shrink:
  assumes "counter_above ids st" "redis_client st' = redis_client st"
    "memory_counter st' = memory_counter st"
    "fst ` set (memory_users st') \<subseteq> fst ` set (memory_users st)"
  shows "counter_above ids st'"
proof -
  from assms(1) obtain c where c: "redis_client st = None" "memory_counter st = JInt c"
    "\<forall>q\<in>ids. q < of_int c"
    "\<forall>k\<in>fst ` set (memory_users st). \<forall>q. k = KNum q \<longrightarrow> q < of_int c"
    unfolding counter_above_def by blast
  have "\<forall>k\<in>fst ` set (memory_users st'). \<forall>q. k = KNum q \<longrightarrow> q < of_int c"
    using c(4) assms(4) by blast
  then show ?thesis
    unfolding counter_above_def using c(1-3) assms(2,3) by simp
qed

lemma counter_above_insert:
  assumes inv: "counter_above ids st" and rc: "redis_client st' = None"
    and c': "memory_counter st = JInt c" "memory_counter st' = JInt c'" "c \<le> c'"
    and keys: "fst ` set (memory_users st') = insert k (fst ` set (memory_users st))"
    and k: "\<forall>q. k = KNum q \<longrightarrow> q < of_int c'"
    and new: "\<forall>q\<in>ids'. q < of_int c'"
  shows "counter_above (ids \<union> ids') st'"
proof -
  from inv c'(1) have old: "\<forall>q\<in>ids. q < of_int c"
    "\<forall>k\<in>fst ` set (memory_users st). \<forall>q. k = KNum q \<longrightarrow> q < of_int c"
    unfolding counter_above_def by auto
  have le: "(of_int c :: rat) \<le> of_int c'" using c'(3) by simp
  have "\<forall>q\<in>ids \<union> ids'. q < of_int c'"
    using old(1) new le by force
  moreover have "\<forall>x\<in>fst ` set (memory_users st'). \<forall>q. x = KNum q \<longrightarrow> q < of_int c'"
    unfolding keys using old(2) k le by force
  ultimately show ?thesis
    unfolding counter_above_def using rc c'(2) by simp
qed

lemma handle_keeps_counter_above:
  assumes inv: "counter_above ids st" and q: "no_float_id q"
    and h: "db_handle rt st q = (res, st')"
  shows "counter_above (ids \<union> created_set [res]) st'"
proof (cases q)
  case (Create data now)
  from inv obtain c where rc: "redis_client st = None" and c: "memory_counter st = JInt c"
    by (auto simp: counter_above_def)
  have h': "db_create_user rt st data now = (res, st')" using h Create by simp
  from create_memory_cases [OF rc c q [unfolded Create] h']
  show ?thesis
  proof (elim disjE exE conjE)
    assume "st' = st" "created_id res = None"
    then show ?thesis using inv by (simp add: created_set_def)
  next
    fix k u
    assume stored: "st' = st\<lparr>memory_users := AList.update k u (memory_users st)\<rparr>"
      "\<forall>q. k \<noteq> KNum q" "created_id res = None"
    have "counter_above (ids \<union> {}) st'"
    proof (rule counter_above_insert [OF inv _ c _ order_refl])
      show "redis_client st' = None" "memory_counter st' = JInt c"
        using stored(1) rc c by simp_all
      show "fst ` set (memory_users st') = insert k (fst ` set (memory_users st))"
        using stored(1) by (simp add: dom_update)
      show "\<forall>q. k = KNum q \<longrightarrow> q < of_int c" using stored(2) by simp
    qed simp
    then show ?thesis using stored(3) by (simp add: created_set_def)
  next
    fix x c' u i
    assume ok: "st' = st\<lparr>memory_users := AList.update (KNum x) u (memory_users st),
                          memory_counter := JInt c'\<rparr>"
      "created_id res = Some i" "num_val i = Some x" "x < of_int c'" "c \<le> c'"
    have "counter_above (ids \<union> {x}) st'"
    proof (rule counter_above_insert [OF inv _ c _ ok(5)])
      show "redis_client st' = None" "memory_counter st' = JInt c'"
        using ok(1) rc by simp_all
      show "fst ` set (memory_users st') = insert (KNum x) (fst ` set (memory_users st))"
        using ok(1) by (simp add: dom_update)
      show "\<forall>q. KNum x = KNum q \<longrightarrow> q < of_int c'" using ok(4) by simp
      show "\<forall>q\<in>{x}. q < of_int c'" using ok(4) by simp
    qed
    moreover have "created_set [res] = {x}"
      using ok(2,3) by (auto simp: created_set_def)
    ultimately show ?thesis by simp
  qed
next
  case (Delete i)
  have rc: "redis_client st = None" using inv by (simp add: counter_above_def)
  have "created_id res = None"
    using h Delete rc
    by (auto simp: route_delete_user_def db_delete_user_def created_id_simps split: if_splits)
  moreover have "counter_above ids st'"
  proof (rule counter_above_shrink [OF inv])
    show "redis_client st' = redis_client st" "memory_counter st' = memory_counter st"
      using h Delete rc by (auto simp: route_delete_user_def db_delete_user_def split: if_splits)
    have "st' = st \<or> st' = st\<lparr>memory_users := AList.delete (KNum (of_int i)) (memory_users st)\<rparr>"
      using h Delete rc by (auto simp: route_delete_user_def db_delete_user_def split: if_splits)
    then show "fst ` set (memory_users st') \<subseteq> fst ` set (memory_users st)"
      by (elim disjE) (simp_all add: dom_delete_subset)
  qed
  ultimately show ?thesis by (simp add: created_set_def)
next
  case (Get i)
  then show ?thesis using inv h by (auto simp: created_id_simps created_set_def)
next
  case List
  then show ?thesis using inv h by (auto simp: created_id_simps created_set_def)
qed

lemma run_keeps_counter_above:
  assumes "counter_above ids st" "\<forall>q\<in>set qs. no_float_id q" "db_run rt st qs = (rs, st')"
  shows "counter_above (ids \<union> created_set rs) st'"
  using assms
proof (induction qs arbitrary: ids st rs)
  case Nil
  then show ?case by (simp add: created_set_def)
next
  case (Cons q qs)
  obtain res st1 where h: "db_handle rt st q = (res, st1)" by (cases "db_handle rt st q")
  obtain rs1 where r: "db_run rt st1 qs = (rs1, st')" and rs: "rs = res # rs1"
    using Cons.prems(3) h by (auto split: prod.splits)
  from handle_keeps_counter_above [OF Cons.prems(1) _ h] Cons.prems(2)
  have 1: "counter_above (ids \<union> created_set [res]) st1" by auto
  from Cons.IH [OF 1 _ r] Cons.prems(2)
  have 3: "counter_above (ids \<union> created_set [res] \<union> created_set rs1) st'" by auto
  have "ids \<union> created_set [res] \<union> created_set rs1 = ids \<union> created_set rs"
    using rs by (auto simp: created_set_def)
  then show ?case using 3 by simp
qed

lemma created_ints_created_set: "n \<in> set (created_ints rs) \<Longrightarrow> of_int n \<in> created_set rs"
proof (induction rs)
  case Nil
  then show ?case by (simp add: created_ints_def)
next
  case (Cons res rs)
  have step: "set (created_ints (res # rs)) =
          (case created_id res of Some (JInt m) \<Rightarrow> {m} | _ \<Rightarrow> {}) \<union> set (created_ints rs)"
    by (simp add: created_ints_def split: option.splits json.splits)
  from Cons.prems consider "created_id res = Some (JInt n)" | "n \<in> set (created_ints rs)"
    unfolding step by (auto split: option.splits json.splits)
  then show ?case
  proof cases
    case 1
    then show ?thesis by (auto simp: created_set_def)
  next
    case 2
    then have "of_int n \<in> created_set rs" by (rule Cons.IH)
    then show ?thesis by (auto simp: created_set_def)
  qed
qed

lemma init_counter_above: "\<not> reachable r \<Longrightarrow> counter_above {} (db_init r)"
  by (simp add: counter_above_def db_init_def)

text \<open>The store step.\<close>

lemma store_external_ok:
  assumes "reachable r"
    "redis_encode rt user_id = Some i" "redis_encode rt name = Some n"
    "redis_encode rt email = Some e" "redis_encode rt created_at = Some c"
    "\<forall>s t. map_of (keyspace r) (''user:'' @ i) \<noteq> Some (RString s, t)"
  shows "\<exists>r' flds. store_external rt r user_id name email created_at = Inr r'
      \<and> reachable r'
      \<and> map_of (keyspace r') (''user:'' @ i) = Some (RHash flds, Some 3600)
      \<and> map_of flds ''id'' = Some i \<and> map_of flds ''name'' = Some n
      \<and> map_of flds ''email'' = Some e \<and> map_of flds ''created_at'' = Some c
      \<and> (\<forall>k. k \<noteq> ''user:'' @ i \<longrightarrow> map_of (keyspace r') k = map_of (keyspace r) k)"
proof (cases "map_of (keyspace r) (''user:'' @ i)")
  case None
  then show ?thesis using assms(1-5)
    by (simp add: store_external_def r_hset_def r_expire_def update_conv' set_fields_def)
next
  case (Some a)
  then obtain flds t where a: "a = (RHash flds, t)"
    using assms(6) by (cases a; cases "fst a") auto
  show ?thesis using assms(1-5) Some a
    by (simp add: store_external_def r_hset_def r_expire_def update_conv' set_fields_def)
qed

text \<open>A write to the external store touches one key.\<close>

lemma store_external_frame:
  assumes "store_external rt r (JInt n) name email created_at = Inr r'"
  shows "reachable r' = reachable r
       \<and> (\<forall>k. k \<noteq> ''user:'' @ str_int n \<longrightarrow> map_of (keyspace r') k = map_of (keyspace r) k)"
  using assms
  by (auto simp: store_external_def r_hset_def r_expire_def update_conv' Let_def
        split: option.splits if_splits rvalue.splits sum.splits prod.splits)

lemma user_key_inj: "j \<noteq> n \<Longrightarrow> ''user:'' @ str_int j \<noteq> ''user:'' @ str_int n"
  using str_int_inj by auto

lemma get_after_external_store:
  assumes "redis_client st = Some r"
    "store_external rt r (JInt n) name email created_at = Inr r'" "j \<noteq> n"
  shows "db_get_user rt (st\<lparr>redis_client := Some r'\<rparr>) j = db_get_user rt st j"
proof -
  from store_external_frame [OF assms(2)] user_key_inj [OF assms(3)]
  have "reachable r' = reachable r"
    "map_of (keyspace r') (''user:'' @ str_int j) = map_of (keyspace r) (''user:'' @ str_int j)"
    by blast+
  then have "r_hgetall r' (''user:'' @ str_int j) = r_hgetall r (''user:'' @ str_int j)"
    by (simp add: r_hgetall_def)
  then show ?thesis using assms(1)
    by (simp add: db_get_user_def storage_def split: sum.splits)
qed

text \<open>The counter is a number in every state the service reaches.\<close>

lemma py_add_one_number: "py_add_one rt v = Inr c' \<Longrightarrow> num_val c' \<noteq> None"
  by (cases v) auto

lemma py_max_add_one_number:
  assumes "num_val c = Some a" "num_val v = Some b"
  shows "\<exists>c'. py_max_add_one rt c v = Inr c' \<and> num_val c' \<noteq> None"
proof -
  have ex: "\<exists>c'. py_add_one rt w = Inr c'" if "num_val w = Some x" for w x
    using that by (cases w) auto
  have "\<exists>c'. py_add_one rt (if b > a then v else c) = Inr c'"
    using ex [OF assms(1)] ex [OF assms(2)] by simp
  then obtain c' where "py_add_one rt (if b > a then v else c) = Inr c'" ..
  then show ?thesis
    using assms py_add_one_number [of rt "if b > a then v else c" c']
    by (simp add: py_max_add_one_def)
qed

lemma store_memory_number:
  assumes "num_val (memory_counter st) \<noteq> None"
  shows "num_val (memory_counter (snd (store_memory rt st v u))) \<noteq> None"
proof (cases "py_key v")
  case None
  then show ?thesis using assms by (simp add: store_memory_def)
next
  case (Some k)
  show ?thesis
  proof (cases "py_max_add_one rt (memory_counter st) v")
    case (Inl e)
    then show ?thesis using assms Some by (simp add: store_memory_def)
  next
    case (Inr c')
    then have "num_val c' \<noteq> None"
      by (auto simp: py_max_add_one_def dest: py_add_one_number split: option.splits)
    then show ?thesis using Some Inr by (simp add: store_memory_def)
  qed
qed

lemma store_user_number:
  assumes "num_val (memory_counter st) \<noteq> None"
  shows "num_val (memory_counter (snd (store_user rt st v n e t))) \<noteq> None"
  using assms store_memory_number [OF assms]
  by (simp add: store_user_def split: option.splits sum.splits)

lemma create_number:
  assumes "num_val (memory_counter st) \<noteq> None"
  shows "num_val (memory_counter (snd (db_create_user rt st data now))) \<noteq> None"
proof -
  have *: "num_val (memory_counter st') \<noteq> None"
    if "store_user rt st v n e t = (x, st')" for v n e t x st'
    using store_user_number [OF assms, of rt v n e t] that by simp
  show ?thesis using assms
    by (auto simp: db_create_user_def split: sum.splits bool.splits prod.splits option.splits
          dest: *)
qed

lemma handle_number:
  assumes "num_val (memory_counter st) \<noteq> None"
  shows "num_val (memory_counter (snd (db_handle rt st q))) \<noteq> None"
proof (cases q)
  case (Create data now)
  then show ?thesis using create_number [OF assms] by simp
next
  case (Delete i)
  then show ?thesis using assms
    by (auto simp: route_delete_user_def db_delete_user_def Let_def
          split: option.splits sum.splits bool.splits)
qed (use assms in auto)

lemma run_number:
  assumes "num_val (memory_counter st) \<noteq> None" "db_run rt st qs = (rs, st')"
  shows "num_val (memory_counter st') \<noteq> None"
  using assms
proof (induction qs arbitrary: st rs)
  case Nil
  then show ?case by simp
next
  case (Cons q qs)
  obtain res st1 where h: "db_handle rt st q = (res, st1)" by (cases "db_handle rt st q")
  obtain rs1 where r: "db_run rt st1 qs = (rs1, st')"
    using Cons.prems(2) h by (auto split: prod.splits)
  have "num_val (memory_counter st1) \<noteq> None"
    using handle_number [OF Cons.prems(1), of rt q] h by simp
  then show ?case using Cons.IH r by blast
qed

lemma reached_counter_number:
  "db_run rt (db_init r) qs = (rs, st) \<Longrightarrow> \<exists>a. num_val (memory_counter st) = Some a"
  using run_number [of "db_init r" rt qs rs st] by (auto simp: db_init_def)

text \<open>A create in the in-process store whose id is a number.\<close>

lemma memory_create_number:
  assumes "py_getitem data ''name'' = Inr name"
    "py_get data ''id'' (memory_counter st) = Inr user_id"
    "py_get data ''email'' (JStr []) = Inr email"
    "py_get data ''created_at'' (JFloat now) = Inr created_at"
    "num_val (memory_counter st) = Some a" "num_val user_id = Some b"
    "redis_client st = None"
  shows "\<exists>c'. py_max_add_one rt (memory_counter st) user_id = Inr c'
      \<and> db_create_user rt st data now =
      (Response 201 (JObj [(''user'', JObj [(''id'', user_id), (''name'', name),
                                 (''email'', email), (''created_at'', created_at)]),
                              (''storage'', JStr ''memory'')]),
       st\<lparr>memory_users := AList.update (KNum b)
               (JObj [(''id'', user_id), (''name'', name),
                      (''email'', email), (''created_at'', created_at)]) (memory_users st),
          memory_counter := c'\<rparr>)"
proof -
  from py_max_add_one_number [OF assms(5,6), of rt]
  obtain c' where c': "py_max_add_one rt (memory_counter st) user_id = Inr c'" by blast
  have k: "py_key user_id = Some (KNum b)"
    using assms(6) by (cases user_id) auto
  show ?thesis
    unfolding create_reads [OF assms(1-4)]
    using c' k assms(7) by (simp add: store_user_def store_memory_def storage_def)
qed

text \<open>A write to the in-process store touches one key.\<close>

lemma store_memory_frame:
  assumes "store_memory rt st (JInt n) u = (x, st')" "k \<noteq> KNum (of_int n)"
  shows "redis_client st' = redis_client st
       \<and> map_of (memory_users st') k = map_of (memory_users st) k"
  using assms by (auto simp: store_memory_def update_conv' Let_def split: sum.splits)

lemma get_after_memory_store:
  assumes "redis_client st = None" "store_memory rt st (JInt n) u = (x, st')" "j \<noteq> n"
  shows "db_get_user rt st' j = db_get_user rt st j"
proof -
  have "KNum (of_int j) \<noteq> KNum (of_int n)" using assms(3) by simp
  from store_memory_frame [OF assms(2) this] assms(1)
  show ?thesis by (simp add: db_get_user_def storage_def split: option.splits)
qed

text \<open>The mode is fixed when the service starts.\<close>

lemma handle_keeps_mode:
  "(redis_client (snd (db_handle rt st q)) = None) = (redis_client st = None)"
proof (cases q)
  case (Create data now)
  then show ?thesis
    by (auto simp: db_create_user_def store_user_def store_memory_def Let_def
          split: sum.splits bool.splits option.splits prod.splits)
next
  case (Delete i)
  then show ?thesis
    by (auto simp: route_delete_user_def db_delete_user_def Let_def
          split: sum.splits bool.splits option.splits)
qed auto

lemma run_keeps_mode:
  "db_run rt st qs = (rs, st') \<Longrightarrow> (redis_client st' = None) = (redis_client st = None)"
proof (induction qs arbitrary: st rs)
  case Nil
  then show ?case by simp
next
  case (Cons q qs)
  obtain res st1 where h: "db_handle rt st q = (res, st1)" by (cases "db_handle rt st q")
  obtain rs1 where r: "db_run rt st1 qs = (rs1, st')"
    using Cons.prems h by (auto split: prod.splits)
  show ?case using Cons.IH [OF r] handle_keeps_mode [of rt st q] h by simp
qed

subsection \<open>Unknown fault scenarios\<close>

text \<open>
  C1, as stated, fails: a name outside the catalog makes the trigger raise \<open>ValueError\<close>;
  the exception leaves the view function, no response with status 400 is built, and the
  framework answers with 500. Here on both services for the name \<open>no_such_scenario\<close>.
\<close>

theorem unknown_scenario_is_not_400:
  "''no_such_scenario'' \<notin> set api_available_errors
   \<and> test_errors example_api_env (Some ''no_such_scenario'') =
       Raised (Exn ''ValueError''
         ''Unknown error type: no_such_scenario. Use /api/errors/test to see available types.'')
   \<and> http_status (test_errors example_api_env (Some ''no_such_scenario'')) = 500
   \<and> ''no_such_scenario'' \<notin> set db_available_errors
   \<and> fst (test_database_errors example_db_env fallback_start (Some ''no_such_scenario'')) =
       Raised (Exn ''ValueError''
         ''Unknown database error type: no_such_scenario. Use /database/errors/test to see available types.'')
   \<and> http_status (fst (test_database_errors example_db_env fallback_start (Some ''no_such_scenario''))) = 500"
  by (simp add: test_errors_def trigger_specific_error_def api_available_errors_def
        test_database_errors_def trigger_database_error_def db_available_errors_def)

text \<open>
  C1, amended: for every name that is not in the service's catalog, the trigger operation of
  either service raises a \<open>ValueError\<close> whose message names the unknown type, whatever the
  environment, and leaves the state of the database service unchanged; at the endpoints the
  same holds for every such name other than \<open>list\<close>, and the status the client sees is 500.
  The name \<open>list\<close>, like a request without a type, is answered 200 with the catalog.
\<close>

theorem unknown_scenario_raises:
  "(error_type \<notin> set api_available_errors \<longrightarrow>
      trigger_specific_error env error_type =
        Raised (Exn ''ValueError''
          (''Unknown error type: '' @ error_type @ ''. Use /api/errors/test to see available types.''))
      \<and> (error_type \<noteq> ''list'' \<longrightarrow>
           test_errors env (Some error_type) = trigger_specific_error env error_type
           \<and> http_status (test_errors env (Some error_type)) = 500))
   \<and> (error_type \<notin> set db_available_errors \<longrightarrow>
      trigger_database_error denv st error_type =
        (Raised (Exn ''ValueError''
           (''Unknown database error type: '' @ error_type
            @ ''. Use /database/errors/test to see available types.'')), st)
      \<and> (error_type \<noteq> ''list'' \<longrightarrow>
           test_database_errors denv st (Some error_type) = trigger_database_error denv st error_type
           \<and> http_status (fst (test_database_errors denv st (Some error_type))) = 500))
   \<and> test_errors env None = test_errors env (Some ''list'')
   \<and> test_errors env (Some ''list'') =
       Response 200 (JObj [(''available_errors'', JArr (map JStr api_available_errors)),
                           (''usage'', JStr ''/api/errors/test?type=<error_type>''),
                           (''example'', JStr ''/api/errors/test?type=division_by_zero'')])
   \<and> test_database_errors denv st None = test_database_errors denv st (Some ''list'')
   \<and> test_database_errors denv st (Some ''list'') =
       (Response 200 (JObj [(''available_errors'', JArr (map JStr db_available_errors)),
                            (''usage'', JStr ''/database/errors/test?type=<error_type>''),
                            (''example'', JStr ''/database/errors/test?type=redis_connection_error'')]),
        st)"
proof -
  have api: "trigger_specific_error env error_type =
        Raised (Exn ''ValueError''
          (''Unknown error type: '' @ error_type @ ''. Use /api/errors/test to see available types.''))"
    if "error_type \<notin> set api_available_errors"
    using that by (simp add: trigger_specific_error_def api_available_errors_def)
  have db: "trigger_database_error denv st error_type =
        (Raised (Exn ''ValueError''
           (''Unknown database error type: '' @ error_type
            @ ''. Use /database/errors/test to see available types.'')), st)"
    if "error_type \<notin> set db_available_errors"
    using that by (simp add: trigger_database_error_def db_available_errors_def)
  show ?thesis
    using api db by (simp add: test_errors_def test_database_errors_def)
qed

theorem unknown_scenario_raises_witness:
  "''redis_timeout'' \<notin> set api_available_errors
   \<and> test_errors example_api_env (Some ''redis_timeout'') =
       Raised (Exn ''ValueError''
         ''Unknown error type: redis_timeout. Use /api/errors/test to see available types.'')
   \<and> ''division_by_zero'' \<notin> set db_available_errors
   \<and> test_database_errors example_db_env external_start (Some ''division_by_zero'') =
       (Raised (Exn ''ValueError''
          ''Unknown database error type: division_by_zero. Use /database/errors/test to see available types.''),
        external_start)"
proof -
  have a: "''redis_timeout'' \<notin> set api_available_errors"
    by (simp add: api_available_errors_def)
  have d: "''division_by_zero'' \<notin> set db_available_errors"
    by (simp add: db_available_errors_def)
  show ?thesis
    using a d
      unknown_scenario_raises [of "''redis_timeout''" example_api_env example_db_env external_start]
      unknown_scenario_raises [of "''division_by_zero''" example_api_env example_db_env external_start]
    by simp
qed

subsection \<open>Validation of a create\<close>

text \<open>
  C2, as stated, fails: only the presence of the key \<open>name\<close> is tested, so a body whose
  name is the empty string is accepted by both services, answered 201 and stored; and a
  body with a non-empty name is not always created: in Fallback mode an id that cannot be
  a dict key is answered 500.
\<close>

theorem empty_name_is_accepted:
  "api_create_user api_init (JObj [(''name'', JStr [])]) (3 / 2) DownTimeout =
     (Response 201 (JObj [(''id'', JInt 1), (''name'', JStr []), (''email'', JStr []),
                          (''created_at'', JFloat (3 / 2))]),
      \<lparr>users = [JObj [(''id'', JInt 1), (''name'', JStr []), (''email'', JStr []),
                       (''created_at'', JFloat (3 / 2))]],
         user_counter = 2\<rparr>)
   \<and> db_create_user example_rt fallback_start (JObj [(''name'', JStr [])]) (3 / 2) =
     (Response 201 (JObj [(''user'', JObj [(''id'', JInt 1), (''name'', JStr []),
                                           (''email'', JStr []), (''created_at'', JFloat (3 / 2))]),
                          (''storage'', JStr ''memory'')]),
      \<lparr>redis_client = None,
         memory_users = [(KNum 1, JObj [(''id'', JInt 1), (''name'', JStr []),
                                        (''email'', JStr []), (''created_at'', JFloat (3 / 2))])],
         memory_counter = JInt 2\<rparr>)
   \<and> db_create_user example_rt fallback_start
        (JObj [(''name'', JStr ''Ada''), (''id'', JArr [])]) (3 / 2) =
     (Response 500 (JObj [(''error'', JStr ''Failed to create user'')]), fallback_start)"
  by (simp add: api_create_user_def api_init_def db_create_user_def store_user_def
        store_memory_def py_max_add_one_def fallback_start_def db_init_def storage_def
        obj_get_def create_failed_def Let_def)

text \<open>
  C2, amended. A create whose JSON body counts as false in Python (\<open>null\<close>, \<open>false\<close>,
  zero, an empty string, list or object), or is an object, a list or a string that does
  not hold \<open>name\<close>, is answered 400 with \<open>Name is required\<close> by both services and leaves
  the state unchanged. A body that is an object with a \<open>name\<close> passes the validation
  whatever the name is, the empty string included. The aggregator then answers 201 with
  the new record and appends it to its records. The database service in Fallback mode, in
  whatever state it has reached by answering create, get, delete and list requests, answers
  201 and stores the record under its id when the id is absent or a number (an integer, a
  float, or a boolean, which Python counts as a number). The database service in External mode answers 201 and stores
  the four fields of the record under the record's key, with a time to live of 3600
  seconds and no other key touched, when the store answers, every field can be encoded
  for it (a string that can be encoded, an integer or a float) and the record's key does
  not hold a plain string.
\<close>

theorem create_validation:
  "(\<not> py_truthy data \<or> py_in ''name'' data = Inr False \<longrightarrow>
      api_create_user ast data now d = (Response 400 (JObj [(''error'', JStr ''Name is required'')]), ast)
      \<and> db_create_user rt st data now =
          (Response 400 (JObj [(''error'', JStr ''Name is required'')]), st))
   \<and> (obj_get kvs ''name'' = Some name
       \<and> py_get (JObj kvs) ''email'' (JStr []) = Inr email \<longrightarrow>
      api_create_user ast (JObj kvs) now d =
        (Response 201 (JObj [(''id'', JInt (user_counter ast)), (''name'', name),
                             (''email'', email), (''created_at'', JFloat now)]),
         ast\<lparr>users := users ast @ [JObj [(''id'', JInt (user_counter ast)), (''name'', name),
                                          (''email'', email), (''created_at'', JFloat now)]],
             user_counter := user_counter ast + 1\<rparr>))
   \<and> (obj_get kvs ''name'' = Some name
       \<and> py_get (JObj kvs) ''id'' (memory_counter st) = Inr user_id
       \<and> py_get (JObj kvs) ''email'' (JStr []) = Inr email
       \<and> py_get (JObj kvs) ''created_at'' (JFloat now) = Inr created_at
       \<and> \<not> reachable r0 \<and> db_run rt (db_init r0) qs = (rs, st)
       \<and> (obj_get kvs ''id'' = None \<or> num_val user_id \<noteq> None) \<longrightarrow>
      (\<exists>k c'. py_key user_id = Some k
         \<and> py_max_add_one rt (memory_counter st) user_id = Inr c'
         \<and> db_create_user rt st (JObj kvs) now =
             (Response 201 (JObj [(''user'', JObj [(''id'', user_id), (''name'', name),
                                     (''email'', email), (''created_at'', created_at)]),
                                  (''storage'', JStr ''memory'')]),
              st\<lparr>memory_users := AList.update k
                      (JObj [(''id'', user_id), (''name'', name),
                             (''email'', email), (''created_at'', created_at)]) (memory_users st),
                 memory_counter := c'\<rparr>)))
   \<and> (obj_get kvs ''name'' = Some name
       \<and> py_get (JObj kvs) ''id'' (memory_counter st) = Inr user_id
       \<and> py_get (JObj kvs) ''email'' (JStr []) = Inr email
       \<and> py_get (JObj kvs) ''created_at'' (JFloat now) = Inr created_at
       \<and> redis_client st = Some r \<and> reachable r
       \<and> redis_encode rt user_id = Some i \<and> redis_encode rt name = Some nm
       \<and> redis_encode rt email = Some e \<and> redis_encode rt created_at = Some t
       \<and> (\<forall>s ttl. map_of (keyspace r) (''user:'' @ i) \<noteq> Some (RString s, ttl)) \<longrightarrow>
      (\<exists>r' flds.
           db_create_user rt st (JObj kvs) now =
             (Response 201 (JObj [(''user'', JObj [(''id'', user_id), (''name'', name),
                                     (''email'', email), (''created_at'', created_at)]),
                                  (''storage'', JStr ''redis'')]),
              st\<lparr>redis_client := Some r'\<rparr>)
         \<and> reachable r'
         \<and> map_of (keyspace r') (''user:'' @ i) = Some (RHash flds, Some 3600)
         \<and> map_of flds ''id'' = Some i \<and> map_of flds ''name'' = Some nm
         \<and> map_of flds ''email'' = Some e \<and> map_of flds ''created_at'' = Some t
         \<and> (\<forall>k. k \<noteq> ''user:'' @ i \<longrightarrow> map_of (keyspace r') k = map_of (keyspace r) k)))"
proof (intro conjI impI)
  assume v: "\<not> py_truthy data \<or> py_in ''name'' data = Inr False"
  show "api_create_user ast data now d =
      (Response 400 (JObj [(''error'', JStr ''Name is required'')]), ast)"
    and "db_create_user rt st data now =
      (Response 400 (JObj [(''error'', JStr ''Name is required'')]), st)"
    using validation_400 [OF v] by (simp_all add: name_required_def)
next
  assume a: "obj_get kvs ''name'' = Some name
       \<and> py_get (JObj kvs) ''email'' (JStr []) = Inr email"
  then have n: "obj_get kvs ''name'' = Some name"
    and e: "(case obj_get kvs ''email'' of None \<Rightarrow> JStr [] | Some x \<Rightarrow> x) = email"
    by simp_all
  show "api_create_user ast (JObj kvs) now d =
        (Response 201 (JObj [(''id'', JInt (user_counter ast)), (''name'', name),
                             (''email'', email), (''created_at'', JFloat now)]),
         ast\<lparr>users := users ast @ [JObj [(''id'', JInt (user_counter ast)), (''name'', name),
                                          (''email'', email), (''created_at'', JFloat now)]],
             user_counter := user_counter ast + 1\<rparr>)"
    unfolding api_create_ok [OF n] e ..
next
  assume a: "obj_get kvs ''name'' = Some name
       \<and> py_get (JObj kvs) ''id'' (memory_counter st) = Inr user_id
       \<and> py_get (JObj kvs) ''email'' (JStr []) = Inr email
       \<and> py_get (JObj kvs) ''created_at'' (JFloat now) = Inr created_at
       \<and> \<not> reachable r0 \<and> db_run rt (db_init r0) qs = (rs, st)
       \<and> (obj_get kvs ''id'' = None \<or> num_val user_id \<noteq> None)"
  then have n: "obj_get kvs ''name'' = Some name"
    and a2: "py_get (JObj kvs) ''id'' (memory_counter st) = Inr user_id"
    and a3: "py_get (JObj kvs) ''email'' (JStr []) = Inr email"
    and a4: "py_get (JObj kvs) ''created_at'' (JFloat now) = Inr created_at"
    and a0: "\<not> reachable r0" and run: "db_run rt (db_init r0) qs = (rs, st)"
    and idn: "obj_get kvs ''id'' = None \<or> num_val user_id \<noteq> None"
    by blast+
  have a1: "py_getitem (JObj kvs) ''name'' = Inr name" using n by simp
  have rc: "redis_client st = None"
    using run_keeps_mode [OF run] a0 by (simp add: db_init_def)
  from reached_counter_number [OF run] obtain x where x: "num_val (memory_counter st) = Some x" ..
  have "num_val user_id \<noteq> None"
  proof (cases "obj_get kvs ''id''")
    case None
    then have "user_id = memory_counter st" using a2 by simp
    then show ?thesis using x by simp
  next
    case (Some v)
    then show ?thesis using idn by simp
  qed
  then obtain b where b: "num_val user_id = Some b" by blast
  have k: "py_key user_id = Some (KNum b)" using b by (cases user_id) auto
  from memory_create_number [OF a1 a2 a3 a4 x b rc, of rt] k
  show "\<exists>k c'. py_key user_id = Some k
         \<and> py_max_add_one rt (memory_counter st) user_id = Inr c'
         \<and> db_create_user rt st (JObj kvs) now =
             (Response 201 (JObj [(''user'', JObj [(''id'', user_id), (''name'', name),
                                     (''email'', email), (''created_at'', created_at)]),
                                  (''storage'', JStr ''memory'')]),
              st\<lparr>memory_users := AList.update k
                      (JObj [(''id'', user_id), (''name'', name),
                             (''email'', email), (''created_at'', created_at)]) (memory_users st),
                 memory_counter := c'\<rparr>)"
    by blast
next
  assume a: "obj_get kvs ''name'' = Some name
       \<and> py_get (JObj kvs) ''id'' (memory_counter st) = Inr user_id
       \<and> py_get (JObj kvs) ''email'' (JStr []) = Inr email
       \<and> py_get (JObj kvs) ''created_at'' (JFloat now) = Inr created_at
       \<and> redis_client st = Some r \<and> reachable r
       \<and> redis_encode rt user_id = Some i \<and> redis_encode rt name = Some nm
       \<and> redis_encode rt email = Some e \<and> redis_encode rt created_at = Some t
       \<and> (\<forall>s ttl. map_of (keyspace r) (''user:'' @ i) \<noteq> Some (RString s, ttl))"
  then have n: "obj_get kvs ''name'' = Some name"
    and a3: "py_get (JObj kvs) ''id'' (memory_counter st) = Inr user_id"
    and a4: "py_get (JObj kvs) ''email'' (JStr []) = Inr email"
    and a5: "py_get (JObj kvs) ''created_at'' (JFloat now) = Inr created_at"
    and a1: "redis_client st = Some r" and a2: "reachable r"
    and enc: "redis_encode rt user_id = Some i" "redis_encode rt name = Some nm"
      "redis_encode rt email = Some e" "redis_encode rt created_at = Some t"
    and a7: "\<forall>s ttl. map_of (keyspace r) (''user:'' @ i) \<noteq> Some (RString s, ttl)"
    by blast+
  from store_external_ok [OF a2 enc a7]
  obtain r' flds where s: "store_external rt r user_id name email created_at = Inr r'"
    and r': "reachable r'"
      "map_of (keyspace r') (''user:'' @ i) = Some (RHash flds, Some 3600)"
      "map_of flds ''id'' = Some i" "map_of flds ''name'' = Some nm"
      "map_of flds ''email'' = Some e" "map_of flds ''created_at'' = Some t"
      "\<forall>k. k \<noteq> ''user:'' @ i \<longrightarrow> map_of (keyspace r') k = map_of (keyspace r) k"
    by blast
  have g: "py_getitem (JObj kvs) ''name'' = Inr name" using n by simp
  have "db_create_user rt st (JObj kvs) now =
             (Response 201 (JObj [(''user'', JObj [(''id'', user_id), (''name'', name),
                                     (''email'', email), (''created_at'', created_at)]),
                                  (''storage'', JStr ''redis'')]),
              st\<lparr>redis_client := Some r'\<rparr>)"
    unfolding create_reads [OF g a3 a4 a5] by (simp add: store_user_def storage_def a1 s)
  then show "\<exists>r' flds.
           db_create_user rt st (JObj kvs) now =
             (Response 201 (JObj [(''user'', JObj [(''id'', user_id), (''name'', name),
                                     (''email'', email), (''created_at'', created_at)]),
                                  (''storage'', JStr ''redis'')]),
              st\<lparr>redis_client := Some r'\<rparr>)
         \<and> reachable r'
         \<and> map_of (keyspace r') (''user:'' @ i) = Some (RHash flds, Some 3600)
         \<and> map_of flds ''id'' = Some i \<and> map_of flds ''name'' = Some nm
         \<and> map_of flds ''email'' = Some e \<and> map_of flds ''created_at'' = Some t
         \<and> (\<forall>k. k \<noteq> ''user:'' @ i \<longrightarrow> map_of (keyspace r') k = map_of (keyspace r) k)"
    using r' by blast
qed

theorem create_validation_witness:
  "api_create_user api_init (JObj []) (3 / 2) DownTimeout =
     (Response 400 (JObj [(''error'', JStr ''Name is required'')]), api_init)
   \<and> db_create_user example_rt fallback_start (JObj [(''email'', JStr ''a@b.c'')]) (3 / 2) =
     (Response 400 (JObj [(''error'', JStr ''Name is required'')]), fallback_start)
   \<and> api_create_user api_init (JObj [(''name'', JStr [])]) (3 / 2) DownTimeout =
     (Response 201 (JObj [(''id'', JInt 1), (''name'', JStr []), (''email'', JStr []),
                          (''created_at'', JFloat (3 / 2))]),
      \<lparr>users = [JObj [(''id'', JInt 1), (''name'', JStr []), (''email'', JStr []),
                       (''created_at'', JFloat (3 / 2))]],
         user_counter = 2\<rparr>)
   \<and> db_create_user example_rt fallback_start (JObj [(''name'', JStr [])]) (3 / 2) =
     (Response 201 (JObj [(''user'', JObj [(''id'', JInt 1), (''name'', JStr []),
                                           (''email'', JStr []), (''created_at'', JFloat (3 / 2))]),
                          (''storage'', JStr ''memory'')]),
      \<lparr>redis_client = None,
         memory_users = [(KNum 1, JObj [(''id'', JInt 1), (''name'', JStr []),
                                        (''email'', JStr []), (''created_at'', JFloat (3 / 2))])],
         memory_counter = JInt 2\<rparr>)
   \<and> fst (db_create_user example_rt external_start (JObj [(''name'', JStr [])]) (3 / 2)) =
     Response 201 (JObj [(''user'', JObj [(''id'', JInt 1), (''name'', JStr []),
                                          (''email'', JStr []), (''created_at'', JFloat (3 / 2))]),
                         (''storage'', JStr ''redis'')])"
proof -
  let ?kvs = "[(''name'', JStr [])]"
  let ?down = "\<lparr>reachable = False, keyspace = []\<rparr>"
  let ?up = "\<lparr>reachable = True, keyspace = []\<rparr>"
  have v1: "\<not> py_truthy (JObj []) \<or> py_in ''name'' (JObj []) = Inr False" by simp
  have v2: "\<not> py_truthy (JObj [(''email'', JStr ''a@b.c'')])
            \<or> py_in ''name'' (JObj [(''email'', JStr ''a@b.c'')]) = Inr False" by simp
  have n: "obj_get ?kvs ''name'' = Some (JStr [])
           \<and> py_get (JObj ?kvs) ''email'' (JStr []) = Inr (JStr [])"
    by (simp add: obj_get_def)
  have f: "obj_get ?kvs ''name'' = Some (JStr [])
       \<and> py_get (JObj ?kvs) ''id'' (memory_counter fallback_start) = Inr (JInt 1)
       \<and> py_get (JObj ?kvs) ''email'' (JStr []) = Inr (JStr [])
       \<and> py_get (JObj ?kvs) ''created_at'' (JFloat (3 / 2)) = Inr (JFloat (3 / 2))
       \<and> \<not> reachable ?down \<and> db_run example_rt (db_init ?down) [] = ([], fallback_start)
       \<and> (obj_get ?kvs ''id'' = None \<or> num_val (JInt 1) \<noteq> None)"
    by (simp add: fallback_start_def db_init_def obj_get_def)
  have e: "obj_get ?kvs ''name'' = Some (JStr [])
       \<and> py_get (JObj ?kvs) ''id'' (memory_counter external_start) = Inr (JInt 1)
       \<and> py_get (JObj ?kvs) ''email'' (JStr []) = Inr (JStr [])
       \<and> py_get (JObj ?kvs) ''created_at'' (JFloat (3 / 2)) = Inr (JFloat (3 / 2))
       \<and> redis_client external_start = Some ?up \<and> reachable ?up
       \<and> redis_encode example_rt (JInt 1) = Some (str_int 1)
       \<and> redis_encode example_rt (JStr []) = Some []
       \<and> redis_encode example_rt (JStr []) = Some []
       \<and> redis_encode example_rt (JFloat (3 / 2)) = Some ''1.5''
       \<and> (\<forall>s ttl. map_of (keyspace ?up) (''user:'' @ str_int 1) \<noteq> Some (RString s, ttl))"
    by (simp add: external_start_def db_init_def obj_get_def example_rt_def)
  note V1 = create_validation [where data = "JObj []" and ast = api_init and now = "3 / 2"
      and d = DownTimeout, THEN conjunct1, THEN mp, OF v1, THEN conjunct1]
  note V2 = create_validation [where data = "JObj [(''email'', JStr ''a@b.c'')]"
      and rt = example_rt and st = fallback_start and now = "3 / 2",
      THEN conjunct1, THEN mp, OF v2, THEN conjunct2]
  note A = create_validation [where kvs = ?kvs and name = "JStr []" and email = "JStr []"
      and ast = api_init and now = "3 / 2" and d = DownTimeout,
      THEN conjunct2, THEN conjunct1, THEN mp, OF n]
  note F = create_validation [where kvs = ?kvs and name = "JStr []" and rt = example_rt
      and st = fallback_start and now = "3 / 2" and user_id = "JInt 1" and email = "JStr []"
      and created_at = "JFloat (3 / 2)" and ?r0.0 = ?down and qs = "[]" and rs = "[]",
      THEN conjunct2, THEN conjunct2, THEN conjunct1, THEN mp, OF f]
  note E = create_validation [where kvs = ?kvs and name = "JStr []" and rt = example_rt
      and st = external_start and now = "3 / 2" and r = ?up and user_id = "JInt 1"
      and email = "JStr []" and created_at = "JFloat (3 / 2)" and i = "str_int 1"
      and nm = "[]" and e = "[]" and t = "''1.5''",
      THEN conjunct2, THEN conjunct2, THEN conjunct2, THEN mp, OF e]
  have a: "api_create_user api_init (JObj ?kvs) (3 / 2) DownTimeout =
     (Response 201 (JObj [(''id'', JInt 1), (''name'', JStr []), (''email'', JStr []),
                          (''created_at'', JFloat (3 / 2))]),
      \<lparr>users = [JObj [(''id'', JInt 1), (''name'', JStr []), (''email'', JStr []),
                       (''created_at'', JFloat (3 / 2))]],
         user_counter = 2\<rparr>)"
    using A by (simp add: api_init_def)
  have m: "db_create_user example_rt fallback_start (JObj ?kvs) (3 / 2) =
     (Response 201 (JObj [(''user'', JObj [(''id'', JInt 1), (''name'', JStr []),
                                           (''email'', JStr []), (''created_at'', JFloat (3 / 2))]),
                          (''storage'', JStr ''memory'')]),
      \<lparr>redis_client = None,
         memory_users = [(KNum 1, JObj [(''id'', JInt 1), (''name'', JStr []),
                                        (''email'', JStr []), (''created_at'', JFloat (3 / 2))])],
         memory_counter = JInt 2\<rparr>)"
    using F by (auto simp: fallback_start_def db_init_def py_max_add_one_def)
  have x: "fst (db_create_user example_rt external_start (JObj ?kvs) (3 / 2)) =
     Response 201 (JObj [(''user'', JObj [(''id'', JInt 1), (''name'', JStr []),
                                          (''email'', JStr []), (''created_at'', JFloat (3 / 2))]),
                         (''storage'', JStr ''redis'')])"
    using E by auto
  from V1 V2 a m x show ?thesis by simp
qed

subsection \<open>Create, then get\<close>

text \<open>
  C3, as stated, fails: the body of the facade's 201 response is not the stored record but
  an object that holds the record under \<open>user\<close> next to a \<open>storage\<close> tag; here for the
  first create on a fresh in-process store. And a get with the returned id does not always
  succeed: a create that supplies the id \<open>-3\<close> is answered 201, but no route matches the
  path of a get of \<open>-3\<close>, which is answered 404.
\<close>

theorem create_body_is_an_envelope:
  "db_create_user example_rt fallback_start (JObj [(''name'', JStr ''Ada'')]) (3 / 2) =
     (Response 201 (JObj [(''user'', ada), (''storage'', JStr ''memory'')]),
      \<lparr>redis_client = None, memory_users = [(KNum 1, ada)], memory_counter = JInt 2\<rparr>)
   \<and> JObj [(''user'', ada), (''storage'', JStr ''memory'')] \<noteq> ada
   \<and> fst (db_create_user example_rt fallback_start
        (JObj [(''name'', JStr ''Ada''), (''id'', JInt (- 3))]) (3 / 2)) =
     Response 201 (JObj [(''user'', JObj [(''id'', JInt (- 3)), (''name'', JStr ''Ada''),
                                          (''email'', JStr []), (''created_at'', JFloat (3 / 2))]),
                         (''storage'', JStr ''memory'')])
   \<and> http_status (route_get_user example_rt
        (snd (db_create_user example_rt fallback_start
           (JObj [(''name'', JStr ''Ada''), (''id'', JInt (- 3))]) (3 / 2))) (- 3)) = 404"
  by (simp add: db_create_user_def store_user_def store_memory_def py_max_add_one_def
        fallback_start_def db_init_def storage_def obj_get_def ada_def
        route_get_user_def route_not_found_def)

text \<open>
  C3, amended: take a create body with a name whose id (the caller's, or else the counter)
  is a non-negative integer. In Fallback mode, in whatever state the service has reached by
  answering create, get, delete and list requests, the facade answers 201 with a body that
  holds the stored record under \<open>user\<close> (next to a \<open>storage\<close> tag), not the record
  itself, and a get of that record's id on the state left behind answers 200 with a body
  that holds an equal record under \<open>user\<close>. In External mode the same holds when the name and the email are strings
  that the client can encode, the creation time is a float that \<open>float(repr(t))\<close> gives
  back, the store answers and the record's key does not hold a plain string.
\<close>

theorem create_then_get:
  "(\<not> reachable r0 \<and> db_run rt (db_init r0) qs = (rs, st)
    \<and> py_getitem data ''name'' = Inr name
    \<and> py_get data ''id'' (memory_counter st) = Inr (JInt n) \<and> 0 \<le> n
    \<and> py_get data ''email'' (JStr []) = Inr email
    \<and> py_get data ''created_at'' (JFloat now) = Inr created_at
    \<longrightarrow> fst (db_create_user rt st data now) =
          Response 201 (JObj [(''user'', JObj [(''id'', JInt n), (''name'', name),
                                 (''email'', email), (''created_at'', created_at)]),
                              (''storage'', JStr ''memory'')])
        \<and> route_get_user rt (snd (db_create_user rt st data now)) n =
          Response 200 (JObj [(''user'', JObj [(''id'', JInt n), (''name'', name),
                                 (''email'', email), (''created_at'', created_at)]),
                              (''storage'', JStr ''memory'')]))
   \<and> (py_getitem data ''name'' = Inr (JStr name_s)
    \<and> py_get data ''id'' (memory_counter st) = Inr (JInt n) \<and> 0 \<le> n
    \<and> py_get data ''email'' (JStr []) = Inr (JStr email_s)
    \<and> py_get data ''created_at'' (JFloat now) = Inr (JFloat t)
    \<and> utf8_ok rt name_s \<and> utf8_ok rt email_s
    \<and> float_of_str rt (float_repr rt t) = Some t
    \<and> redis_client st = Some r \<and> reachable r
    \<and> (\<forall>s ttl. map_of (keyspace r) (''user:'' @ str_int n) \<noteq> Some (RString s, ttl))
    \<longrightarrow> fst (db_create_user rt st data now) =
          Response 201 (JObj [(''user'', JObj [(''id'', JInt n), (''name'', JStr name_s),
                                 (''email'', JStr email_s), (''created_at'', JFloat t)]),
                              (''storage'', JStr ''redis'')])
        \<and> route_get_user rt (snd (db_create_user rt st data now)) n =
          Response 200 (JObj [(''user'', JObj [(''id'', JInt n), (''name'', JStr name_s),
                                 (''email'', JStr email_s), (''created_at'', JFloat t)]),
                              (''storage'', JStr ''redis'')]))"
proof (intro conjI impI)
  assume a: "\<not> reachable r0 \<and> db_run rt (db_init r0) qs = (rs, st)
    \<and> py_getitem data ''name'' = Inr name
    \<and> py_get data ''id'' (memory_counter st) = Inr (JInt n) \<and> 0 \<le> n
    \<and> py_get data ''email'' (JStr []) = Inr email
    \<and> py_get data ''created_at'' (JFloat now) = Inr created_at"
  then have a0: "\<not> reachable r0" and run: "db_run rt (db_init r0) qs = (rs, st)"
    and a1: "py_getitem data ''name'' = Inr name"
    and a2: "py_get data ''id'' (memory_counter st) = Inr (JInt n)"
    and n: "0 \<le> n"
    and a3: "py_get data ''email'' (JStr []) = Inr email"
    and a4: "py_get data ''created_at'' (JFloat now) = Inr created_at"
    by blast+
  have a6: "redis_client st = None"
    using run_keeps_mode [OF run] a0 by (simp add: db_init_def)
  from reached_counter_number [OF run] obtain x where x: "num_val (memory_counter st) = Some x" ..
  have b: "num_val (JInt n) = Some (of_int n)" by simp
  from memory_create_number [OF a1 a2 a3 a4 x b a6, of rt]
  obtain c' where cr: "db_create_user rt st data now =
      (Response 201 (JObj [(''user'', JObj [(''id'', JInt n), (''name'', name),
                                 (''email'', email), (''created_at'', created_at)]),
                              (''storage'', JStr ''memory'')]),
       st\<lparr>memory_users := AList.update (KNum (of_int n))
               (JObj [(''id'', JInt n), (''name'', name),
                      (''email'', email), (''created_at'', created_at)]) (memory_users st),
          memory_counter := c'\<rparr>)"
    by blast
  show "fst (db_create_user rt st data now) =
          Response 201 (JObj [(''user'', JObj [(''id'', JInt n), (''name'', name),
                                 (''email'', email), (''created_at'', created_at)]),
                              (''storage'', JStr ''memory'')])"
    unfolding cr by simp
  show "route_get_user rt (snd (db_create_user rt st data now)) n =
          Response 200 (JObj [(''user'', JObj [(''id'', JInt n), (''name'', name),
                                 (''email'', email), (''created_at'', created_at)]),
                              (''storage'', JStr ''memory'')])"
    unfolding cr using a6 n
    by (simp add: route_get_user_def db_get_user_def update_conv' storage_def)
next
  assume a: "py_getitem data ''name'' = Inr (JStr name_s)
    \<and> py_get data ''id'' (memory_counter st) = Inr (JInt n) \<and> 0 \<le> n
    \<and> py_get data ''email'' (JStr []) = Inr (JStr email_s)
    \<and> py_get data ''created_at'' (JFloat now) = Inr (JFloat t)
    \<and> utf8_ok rt name_s \<and> utf8_ok rt email_s
    \<and> float_of_str rt (float_repr rt t) = Some t
    \<and> redis_client st = Some r \<and> reachable r
    \<and> (\<forall>s ttl. map_of (keyspace r) (''user:'' @ str_int n) \<noteq> Some (RString s, ttl))"
  then have b1: "py_getitem data ''name'' = Inr (JStr name_s)"
    and b2: "py_get data ''id'' (memory_counter st) = Inr (JInt n)"
    and n: "0 \<le> n"
    and b3: "py_get data ''email'' (JStr []) = Inr (JStr email_s)"
    and b4: "py_get data ''created_at'' (JFloat now) = Inr (JFloat t)"
    and u1: "utf8_ok rt name_s" and u2: "utf8_ok rt email_s"
    and b5: "float_of_str rt (float_repr rt t) = Some t"
    and b6: "redis_client st = Some r" and b7: "reachable r"
    and b8: "\<forall>s ttl. map_of (keyspace r) (''user:'' @ str_int n) \<noteq> Some (RString s, ttl)"
    by blast+
  have enc: "redis_encode rt (JInt n) = Some (str_int n)"
    "redis_encode rt (JStr name_s) = Some name_s"
    "redis_encode rt (JStr email_s) = Some email_s"
    "redis_encode rt (JFloat t) = Some (float_repr rt t)"
    using u1 u2 by simp_all
  from store_external_ok [OF b7 enc b8]
  obtain r' flds where s: "store_external rt r (JInt n) (JStr name_s) (JStr email_s) (JFloat t) = Inr r'"
    and r': "reachable r'"
      "map_of (keyspace r') (''user:'' @ str_int n) = Some (RHash flds, Some 3600)"
      "map_of flds ''id'' = Some (str_int n)" "map_of flds ''name'' = Some name_s"
      "map_of flds ''email'' = Some email_s" "map_of flds ''created_at'' = Some (float_repr rt t)"
    by blast
  have ne: "flds \<noteq> []" using r'(3) by auto
  have c: "db_create_user rt st data now =
      (Response 201 (JObj [(''user'', JObj [(''id'', JInt n), (''name'', JStr name_s),
                                 (''email'', JStr email_s), (''created_at'', JFloat t)]),
                              (''storage'', JStr ''redis'')]),
       st\<lparr>redis_client := Some r'\<rparr>)"
    unfolding create_reads [OF b1 b2 b3 b4]
    by (simp add: store_user_def storage_def b6 s)
  show "fst (db_create_user rt st data now) =
          Response 201 (JObj [(''user'', JObj [(''id'', JInt n), (''name'', JStr name_s),
                                 (''email'', JStr email_s), (''created_at'', JFloat t)]),
                              (''storage'', JStr ''redis'')])"
    unfolding c by simp
  have u: "user_of_hash rt flds = Inr (JObj [(''id'', JInt n), (''name'', JStr name_s),
                                 (''email'', JStr email_s), (''created_at'', JFloat t)])"
    using r'(3-6) b5 by (simp add: user_of_hash_def py_int_str_int)
  have h: "r_hgetall r' (''user:'' @ str_int n) = Inr flds"
    using r'(1,2) by (simp add: r_hgetall_def)
  show "route_get_user rt (snd (db_create_user rt st data now)) n =
          Response 200 (JObj [(''user'', JObj [(''id'', JInt n), (''name'', JStr name_s),
                                 (''email'', JStr email_s), (''created_at'', JFloat t)]),
                              (''storage'', JStr ''redis'')])"
    unfolding c using h u ne b6 n by (simp add: route_get_user_def db_get_user_def storage_def)
qed

theorem create_then_get_witness:
  "fst (db_create_user example_rt fallback_start (JObj [(''name'', JStr ''Ada'')]) (3 / 2)) =
     Response 201 (JObj [(''user'', ada), (''storage'', JStr ''memory'')])
   \<and> route_get_user example_rt
        (snd (db_create_user example_rt fallback_start (JObj [(''name'', JStr ''Ada'')]) (3 / 2))) 1 =
     Response 200 (JObj [(''user'', ada), (''storage'', JStr ''memory'')])
   \<and> fst (db_create_user example_rt external_start (JObj [(''name'', JStr ''Ada'')]) (3 / 2)) =
     Response 201 (JObj [(''user'', ada), (''storage'', JStr ''redis'')])
   \<and> route_get_user example_rt
        (snd (db_create_user example_rt external_start (JObj [(''name'', JStr ''Ada'')]) (3 / 2))) 1 =
     Response 200 (JObj [(''user'', ada), (''storage'', JStr ''redis'')])"
proof -
  let ?data = "JObj [(''name'', JStr ''Ada'')]"
  let ?down = "\<lparr>reachable = False, keyspace = []\<rparr>"
  let ?r = "\<lparr>reachable = True, keyspace = []\<rparr>"
  have f: "\<not> reachable ?down \<and> db_run example_rt (db_init ?down) [] = ([], fallback_start)
    \<and> py_getitem ?data ''name'' = Inr (JStr ''Ada'')
    \<and> py_get ?data ''id'' (memory_counter fallback_start) = Inr (JInt 1) \<and> (0::int) \<le> 1
    \<and> py_get ?data ''email'' (JStr []) = Inr (JStr [])
    \<and> py_get ?data ''created_at'' (JFloat (3 / 2)) = Inr (JFloat (3 / 2))"
    by (simp add: obj_get_def fallback_start_def db_init_def)
  have e: "py_getitem ?data ''name'' = Inr (JStr ''Ada'')
    \<and> py_get ?data ''id'' (memory_counter external_start) = Inr (JInt 1) \<and> (0::int) \<le> 1
    \<and> py_get ?data ''email'' (JStr []) = Inr (JStr [])
    \<and> py_get ?data ''created_at'' (JFloat (3 / 2)) = Inr (JFloat (3 / 2))
    \<and> utf8_ok example_rt ''Ada'' \<and> utf8_ok example_rt []
    \<and> float_of_str example_rt (float_repr example_rt (3 / 2)) = Some (3 / 2)
    \<and> redis_client external_start = Some ?r \<and> reachable ?r
    \<and> (\<forall>s ttl. map_of (keyspace ?r) (''user:'' @ str_int 1) \<noteq> Some (RString s, ttl))"
    by (simp add: obj_get_def external_start_def db_init_def example_rt_def)
  note F = create_then_get [where data = ?data and st = fallback_start and rt = example_rt
      and now = "3 / 2" and name = "JStr ''Ada''" and n = 1 and email = "JStr []"
      and created_at = "JFloat (3 / 2)" and ?r0.0 = ?down and qs = "[]" and rs = "[]",
      THEN conjunct1, THEN mp, OF f]
  note E = create_then_get [where data = ?data and st = external_start and rt = example_rt
      and now = "3 / 2" and name_s = "''Ada''" and n = 1 and email_s = "[]"
      and t = "3 / 2" and r = ?r, THEN conjunct2, THEN mp, OF e]
  from F E
  show ?thesis by (simp add: ada_def)
qed

subsection \<open>The merged listing\<close>

text \<open>
  C4, as stated, fails: the claim counts as a downstream failure a timeout, a transport
  error and a status outside 200..299, and promises the union of both record sets
  otherwise. The code merges only when the status is exactly 200. Here the database service
  answers 201 with one record, and the listing holds the local record only.
\<close>

theorem reply_201_is_not_merged:
  "api_get_users \<lparr>users = [ada], user_counter = 2\<rparr>
      (DownReply 201 (Some (JObj [(''users'', JArr [bob]), (''count'', JInt 1)]))) =
     Response 200 (JObj [(''users'', JArr [ada]), (''count'', JInt 1),
                         (''source'', JStr ''api-service'')])
   \<and> set [ada] \<noteq> set [ada] \<union> set [bob]"
  by (simp add: api_get_users_def fetch_all_users_def ada_def bob_def Let_def)

text \<open>
  C4, amended: whatever the state of the aggregator (so after every sequence of its
  operations) and whatever the call to the database service does, the merged listing is
  answered 200 with the records, their number and the source tag. The records are the
  local ones followed by the downstream ones (as a set, their union) exactly when the call
  is answered with status 200 and a JSON object whose \<open>users\<close> (an empty list when the
  key is missing) is a list. In every other case (a timeout, a transport error, any status
  other than 200, the other statuses 2xx included, a body that is not JSON or not an
  object, a \<open>users\<close> that is not a list) the records are exactly the local ones.
\<close>

theorem list_merged_never_fails:
  "(\<forall>db_users db_list.
       d = DownReply 200 (Some db_users) \<and> py_get db_users ''users'' (JArr []) = Inr (JArr db_list)
       \<longrightarrow> api_get_users st d =
             Response 200 (JObj [(''users'', JArr (users st @ db_list)),
                                 (''count'', JInt (int (length (users st) + length db_list))),
                                 (''source'', JStr ''api-service'')])
           \<and> set (users st @ db_list) = set (users st) \<union> set db_list)
   \<and> ((\<forall>db_users db_list.
          d = DownReply 200 (Some db_users)
          \<longrightarrow> py_get db_users ''users'' (JArr []) \<noteq> Inr (JArr db_list))
       \<longrightarrow> api_get_users st d =
             Response 200 (JObj [(''users'', JArr (users st)),
                                 (''count'', JInt (int (length (users st)))),
                                 (''source'', JStr ''api-service'')]))"
proof (intro conjI allI impI)
  fix db_users db_list
  assume "d = DownReply 200 (Some db_users)
          \<and> py_get db_users ''users'' (JArr []) = Inr (JArr db_list)"
  then show "api_get_users st d =
             Response 200 (JObj [(''users'', JArr (users st @ db_list)),
                                 (''count'', JInt (int (length (users st) + length db_list))),
                                 (''source'', JStr ''api-service'')])"
    by (simp add: api_get_users_def fetch_all_users_def Let_def)
  show "set (users st @ db_list) = set (users st) \<union> set db_list" by simp
next
  assume no: "\<forall>db_users db_list.
          d = DownReply 200 (Some db_users)
          \<longrightarrow> py_get db_users ''users'' (JArr []) \<noteq> Inr (JArr db_list)"
  have "fetch_all_users (users st) d = Inr (users st) \<or> (\<exists>e. fetch_all_users (users st) d = Inl e)"
  proof (cases d)
    case (DownReply code body)
    show ?thesis
    proof (cases "code = 200")
      case False
      then show ?thesis using DownReply by (simp add: fetch_all_users_def)
    next
      case True
      show ?thesis
      proof (cases body)
        case None
        then show ?thesis using DownReply True by (simp add: fetch_all_users_def)
      next
        case (Some db_users)
        then have "\<forall>db_list. py_get db_users ''users'' (JArr []) \<noteq> Inr (JArr db_list)"
          using no DownReply True by simp
        then show ?thesis using DownReply True Some
          by (auto simp: fetch_all_users_def split: sum.splits json.splits)
      qed
    qed
  qed (simp_all add: fetch_all_users_def)
  then show "api_get_users st d =
             Response 200 (JObj [(''users'', JArr (users st)),
                                 (''count'', JInt (int (length (users st)))),
                                 (''source'', JStr ''api-service'')])"
    by (auto simp: api_get_users_def Let_def)
qed

theorem list_merged_never_fails_witness:
  "api_get_users \<lparr>users = [ada], user_counter = 2\<rparr> DownTimeout =
     Response 200 (JObj [(''users'', JArr [ada]), (''count'', JInt 1),
                         (''source'', JStr ''api-service'')])
   \<and> api_get_users \<lparr>users = [ada], user_counter = 2\<rparr> (DownReply 503 None) =
     Response 200 (JObj [(''users'', JArr [ada]), (''count'', JInt 1),
                         (''source'', JStr ''api-service'')])
   \<and> api_get_users \<lparr>users = [ada], user_counter = 2\<rparr>
        (DownReply 200 (Some (JObj [(''users'', JStr ''none'')]))) =
     Response 200 (JObj [(''users'', JArr [ada]), (''count'', JInt 1),
                         (''source'', JStr ''api-service'')])
   \<and> api_get_users \<lparr>users = [ada], user_counter = 2\<rparr>
        (DownReply 200 (Some (JObj [(''users'', JArr [bob]), (''count'', JInt 1)]))) =
     Response 200 (JObj [(''users'', JArr [ada, bob]), (''count'', JInt 2),
                         (''source'', JStr ''api-service'')])"
proof -
  let ?st = "\<lparr>users = [ada], user_counter = 2\<rparr>"
  let ?body = "JObj [(''users'', JArr [bob]), (''count'', JInt 1)]"
  let ?bad = "JObj [(''users'', JStr ''none'')]"
  have g: "DownReply 200 (Some ?body) = DownReply 200 (Some ?body)
           \<and> py_get ?body ''users'' (JArr []) = Inr (JArr [bob])"
    by (simp add: obj_get_def)
  have t: "\<forall>db_users db_list. DownTimeout = DownReply 200 (Some db_users)
             \<longrightarrow> py_get db_users ''users'' (JArr []) \<noteq> Inr (JArr db_list)"
    by simp
  have u: "\<forall>db_users db_list. DownReply 503 None = DownReply 200 (Some db_users)
             \<longrightarrow> py_get db_users ''users'' (JArr []) \<noteq> Inr (JArr db_list)"
    by simp
  have b: "\<forall>db_users db_list. DownReply 200 (Some ?bad) = DownReply 200 (Some db_users)
             \<longrightarrow> py_get db_users ''users'' (JArr []) \<noteq> Inr (JArr db_list)"
    by (simp add: obj_get_def)
  note T = list_merged_never_fails [where d = DownTimeout and st = ?st,
      THEN conjunct2, THEN mp, OF t]
  note U = list_merged_never_fails [where d = "DownReply 503 None" and st = ?st,
      THEN conjunct2, THEN mp, OF u]
  note B = list_merged_never_fails [where d = "DownReply 200 (Some ?bad)" and st = ?st,
      THEN conjunct2, THEN mp, OF b]
  note M = list_merged_never_fails [where d = "DownReply 200 (Some ?body)" and st = ?st,
      THEN conjunct1, THEN spec, THEN spec, THEN mp, OF g, THEN conjunct1]
  from T U B M show ?thesis by simp
qed

subsection \<open>The counter of the in-process store\<close>

text \<open>
  C5, as stated, fails: the claim covers every id a caller supplies, and the handler takes
  the id as the body gives it, of whatever type. For the float \<open>2^53\<close> the sum
  \<open>max(memory_counter, user_id) + 1\<close> is rounded back to \<open>2^53\<close>: after the create the
  counter equals the id of the record just inserted, and the next create that supplies no
  id is given that id and replaces the record.
\<close>

theorem float_id_reaches_counter:
  "db_create_user rounding_rt fallback_start
      (JObj [(''name'', JStr ''Ada''), (''id'', JFloat 9007199254740992)]) (3 / 2) =
     (Response 201 (JObj [(''user'', JObj [(''id'', JFloat 9007199254740992), (''name'', JStr ''Ada''),
                                           (''email'', JStr []), (''created_at'', JFloat (3 / 2))]),
                          (''storage'', JStr ''memory'')]),
      \<lparr>redis_client = None,
         memory_users = [(KNum 9007199254740992,
                          JObj [(''id'', JFloat 9007199254740992), (''name'', JStr ''Ada''),
                                (''email'', JStr []), (''created_at'', JFloat (3 / 2))])],
         memory_counter = JFloat 9007199254740992\<rparr>)
   \<and> db_create_user rounding_rt
        \<lparr>redis_client = None,
           memory_users = [(KNum 9007199254740992,
                            JObj [(''id'', JFloat 9007199254740992), (''name'', JStr ''Ada''),
                                  (''email'', JStr []), (''created_at'', JFloat (3 / 2))])],
           memory_counter = JFloat 9007199254740992\<rparr>
        (JObj [(''name'', JStr ''Bob'')]) (3 / 2) =
     (Response 201 (JObj [(''user'', JObj [(''id'', JFloat 9007199254740992), (''name'', JStr ''Bob''),
                                           (''email'', JStr []), (''created_at'', JFloat (3 / 2))]),
                          (''storage'', JStr ''memory'')]),
      \<lparr>redis_client = None,
         memory_users = [(KNum 9007199254740992,
                          JObj [(''id'', JFloat 9007199254740992), (''name'', JStr ''Bob''),
                                (''email'', JStr []), (''created_at'', JFloat (3 / 2))])],
         memory_counter = JFloat 9007199254740992\<rparr>)"
  by (simp add: db_create_user_def store_user_def store_memory_def py_max_add_one_def
        fallback_start_def db_init_def storage_def obj_get_def rounding_rt_def)

text \<open>
  C5, amended: start the service in Fallback mode and let it answer any list of requests
  (creates, deletes, gets, listings) in which no create supplies a float as id. Then the
  counter is an integer strictly above the id of every record that a create has inserted,
  deleted since or not, and above every id still stored: above every integer id, and above
  the number that a boolean id counts as. Ids that are not numbers (a failed create can
  leave a record under one) are not compared with the counter. The next id handed out is
  the counter, so it is the id of no record ever inserted.
\<close>

theorem counter_above_every_inserted_id:
  assumes "\<not> reachable r" and "\<forall>q\<in>set qs. no_float_id q"
    and "db_run rt (db_init r) qs = (rs, st)"
  shows "\<exists>c. memory_counter st = JInt c
           \<and> (\<forall>res\<in>set rs. \<forall>n. created_id res = Some (JInt n) \<longrightarrow> n < c)
           \<and> (\<forall>res\<in>set rs. \<forall>i x. created_id res = Some i \<and> num_val i = Some x \<longrightarrow> x < of_int c)
           \<and> (\<forall>k\<in>fst ` set (memory_users st). \<forall>x. k = KNum x \<longrightarrow> x < of_int c)"
proof -
  from run_keeps_counter_above [OF init_counter_above [OF assms(1)] assms(2,3)]
  have "counter_above (created_set rs) st" by simp
  then obtain c where c: "memory_counter st = JInt c" "\<forall>x\<in>created_set rs. x < of_int c"
    "\<forall>k\<in>fst ` set (memory_users st). \<forall>x. k = KNum x \<longrightarrow> x < of_int c"
    unfolding counter_above_def by blast
  have num: "\<forall>res\<in>set rs. \<forall>i x. created_id res = Some i \<and> num_val i = Some x \<longrightarrow> x < of_int c"
  proof (intro ballI allI impI)
    fix res i x assume "res \<in> set rs" and "created_id res = Some i \<and> num_val i = Some x"
    then have "x \<in> created_set rs" by (auto simp: created_set_def)
    then show "x < of_int c" using c(2) by blast
  qed
  have "\<forall>res\<in>set rs. \<forall>n. created_id res = Some (JInt n) \<longrightarrow> n < c"
  proof (intro ballI allI impI)
    fix res n assume "res \<in> set rs" and "created_id res = Some (JInt n)"
    then have "(of_int n :: rat) < of_int c" using num by force
    then show "n < c" by simp
  qed
  then show ?thesis using c(1,3) num by blast
qed

theorem counter_above_every_inserted_id_witness:
  "db_run example_rt (db_init \<lparr>reachable = False, keyspace = []\<rparr>) sample_history =
     (fst (db_run example_rt (db_init \<lparr>reachable = False, keyspace = []\<rparr>) sample_history),
      snd (db_run example_rt (db_init \<lparr>reachable = False, keyspace = []\<rparr>) sample_history))
   \<and> map created_id (fst (db_run example_rt (db_init \<lparr>reachable = False, keyspace = []\<rparr>) sample_history)) =
       [Some (JInt 1), Some (JInt 7), None, None, Some (JInt 8)]
   \<and> memory_counter (snd (db_run example_rt (db_init \<lparr>reachable = False, keyspace = []\<rparr>) sample_history)) =
       JInt 9
   \<and> (\<exists>c. memory_counter (snd (db_run example_rt (db_init \<lparr>reachable = False, keyspace = []\<rparr>)
                sample_history)) = JInt c
         \<and> (\<forall>res\<in>set (fst (db_run example_rt (db_init \<lparr>reachable = False, keyspace = []\<rparr>)
                sample_history)).
              \<forall>n. created_id res = Some (JInt n) \<longrightarrow> n < c)
         \<and> (\<forall>res\<in>set (fst (db_run example_rt (db_init \<lparr>reachable = False, keyspace = []\<rparr>)
                sample_history)).
              \<forall>i x. created_id res = Some i \<and> num_val i = Some x \<longrightarrow> x < of_int c)
         \<and> (\<forall>k\<in>fst ` set (memory_users (snd (db_run example_rt
                (db_init \<lparr>reachable = False, keyspace = []\<rparr>) sample_history))).
              \<forall>x. k = KNum x \<longrightarrow> x < of_int c))"
proof -
  let ?r = "\<lparr>reachable = False, keyspace = []\<rparr>"
  have r: "\<not> reachable ?r" by simp
  have q: "\<forall>q\<in>set sample_history. no_float_id q"
    by (simp add: sample_history_def obj_get_def)
  have run: "db_run example_rt (db_init ?r) sample_history =
     (fst (db_run example_rt (db_init ?r) sample_history),
      snd (db_run example_rt (db_init ?r) sample_history))"
    by simp
  have ev: "map created_id (fst (db_run example_rt (db_init ?r) sample_history)) =
       [Some (JInt 1), Some (JInt 7), None, None, Some (JInt 8)]
     \<and> memory_counter (snd (db_run example_rt (db_init ?r) sample_history)) = JInt 9"
    by (simp add: sample_history_def db_init_def db_create_user_def db_delete_user_def
          route_delete_user_def
          store_user_def store_memory_def py_max_add_one_def storage_def obj_get_def
          created_id_def user_deleted_def user_not_found_def create_failed_def)
  note E = counter_above_every_inserted_id [OF r q run]
  from run ev E show ?thesis by blast
qed

subsection \<open>Ids of created records\<close>

text \<open>
  C6, as stated, fails: a create that supplies the id of a stored record is answered 201
  with that id and replaces the record. Here two creates with id 7 on a fresh in-process
  store: the get of 7 answers Ada after the first and Bob after the second.
\<close>

theorem supplied_id_replaces_record:
  "db_create_user example_rt fallback_start
      (JObj [(''name'', JStr ''Ada''), (''id'', JInt 7)]) (3 / 2) =
     (Response 201 (JObj [(''user'', JObj [(''id'', JInt 7), (''name'', JStr ''Ada''),
                                           (''email'', JStr []), (''created_at'', JFloat (3 / 2))]),
                          (''storage'', JStr ''memory'')]),
      ada_stored_as_7)
   \<and> route_get_user example_rt ada_stored_as_7 7 =
     Response 200 (JObj [(''user'', JObj [(''id'', JInt 7), (''name'', JStr ''Ada''),
                                          (''email'', JStr []), (''created_at'', JFloat (3 / 2))]),
                         (''storage'', JStr ''memory'')])
   \<and> fst (db_create_user example_rt ada_stored_as_7
      (JObj [(''name'', JStr ''Bob''), (''id'', JInt 7)]) (3 / 2)) =
     Response 201 (JObj [(''user'', JObj [(''id'', JInt 7), (''name'', JStr ''Bob''),
                                           (''email'', JStr []), (''created_at'', JFloat (3 / 2))]),
                          (''storage'', JStr ''memory'')])
   \<and> route_get_user example_rt
        (snd (db_create_user example_rt ada_stored_as_7
           (JObj [(''name'', JStr ''Bob''), (''id'', JInt 7)]) (3 / 2))) 7 =
     Response 200 (JObj [(''user'', JObj [(''id'', JInt 7), (''name'', JStr ''Bob''),
                                          (''email'', JStr []), (''created_at'', JFloat (3 / 2))]),
                         (''storage'', JStr ''memory'')])"
  by (simp add: db_create_user_def store_user_def store_memory_def py_max_add_one_def
        fallback_start_def db_init_def storage_def obj_get_def
        ada_stored_as_7_def db_get_user_def route_get_user_def)

text \<open>
  C6, amended: a create with a name whose id (supplied, or else the counter) is an integer
  never changes what a get of any other id answers, in either mode: no record with another
  id is replaced or renumbered. In Fallback mode, after any history of create, get, delete
  and list requests in which no create supplies a float as id, a create with a name that
  supplies no id gets an id that no record created before has and that no stored record
  has. And in Fallback mode, after any history of such requests, a create with a name and
  a non-negative integer id is followed by a get of that id that answers the new record,
  whether or not a record with that id was stored before (which is then replaced).
\<close>

theorem create_keeps_other_records:
  "(py_getitem data ''name'' = Inr name
    \<and> py_get data ''id'' (memory_counter st) = Inr (JInt n)
    \<and> py_get data ''email'' (JStr []) = Inr email
    \<and> py_get data ''created_at'' (JFloat now) = Inr created_at
    \<longrightarrow> (\<forall>j. j \<noteq> n \<longrightarrow>
           route_get_user rt (snd (db_create_user rt st data now)) j = route_get_user rt st j))
   \<and> (\<not> reachable r \<and> (\<forall>q\<in>set qs. no_float_id q) \<and> db_run rt (db_init r) qs = (rs, st)
    \<and> py_getitem data ''name'' = Inr name \<and> supplied_id data = None
    \<longrightarrow> (\<exists>c. created_id (fst (db_create_user rt st data now)) = Some (JInt c)
            \<and> c \<notin> set (created_ints rs)
            \<and> map_of (memory_users st) (KNum (of_int c)) = None))
   \<and> (\<not> reachable r \<and> db_run rt (db_init r) qs = (rs, st)
    \<and> py_getitem data ''name'' = Inr name
    \<and> py_get data ''id'' (memory_counter st) = Inr (JInt n) \<and> 0 \<le> n
    \<and> py_get data ''email'' (JStr []) = Inr email
    \<and> py_get data ''created_at'' (JFloat now) = Inr created_at
    \<longrightarrow> route_get_user rt (snd (db_create_user rt st data now)) n =
          Response 200 (JObj [(''user'', JObj [(''id'', JInt n), (''name'', name),
                                 (''email'', email), (''created_at'', created_at)]),
                              (''storage'', JStr ''memory'')]))"
proof (intro conjI impI allI)
  fix j
  assume a: "py_getitem data ''name'' = Inr name
    \<and> py_get data ''id'' (memory_counter st) = Inr (JInt n)
    \<and> py_get data ''email'' (JStr []) = Inr email
    \<and> py_get data ''created_at'' (JFloat now) = Inr created_at"
    and j: "j \<noteq> n"
  then have a1: "py_getitem data ''name'' = Inr name"
    and a2: "py_get data ''id'' (memory_counter st) = Inr (JInt n)"
    and a3: "py_get data ''email'' (JStr []) = Inr email"
    and a4: "py_get data ''created_at'' (JFloat now) = Inr created_at"
    by blast+
  have "db_get_user rt (snd (db_create_user rt st data now)) j = db_get_user rt st j"
  proof (cases "redis_client st")
    case None
    let ?u = "JObj [(''id'', JInt n), (''name'', name), (''email'', email),
                    (''created_at'', created_at)]"
    obtain x st' where s: "store_memory rt st (JInt n) ?u = (x, st')"
      by (cases "store_memory rt st (JInt n) ?u")
    have "snd (db_create_user rt st data now) = st'"
      unfolding create_reads [OF a1 a2 a3 a4]
      using None s by (simp add: store_user_def split: option.splits)
    then show ?thesis using get_after_memory_store [OF None s j] by simp
  next
    case (Some r0)
    show ?thesis
    proof (cases "store_external rt r0 (JInt n) name email created_at")
      case (Inl e)
      then show ?thesis
        unfolding create_reads [OF a1 a2 a3 a4] using Some by (simp add: store_user_def)
    next
      case (Inr r')
      then show ?thesis
        unfolding create_reads [OF a1 a2 a3 a4]
        using Some get_after_external_store [OF Some Inr j]
        by (simp add: store_user_def)
    qed
  qed
  then show "route_get_user rt (snd (db_create_user rt st data now)) j = route_get_user rt st j"
    by (simp add: route_get_user_def)
next
  assume b: "\<not> reachable r \<and> (\<forall>q\<in>set qs. no_float_id q) \<and> db_run rt (db_init r) qs = (rs, st)
    \<and> py_getitem data ''name'' = Inr name \<and> supplied_id data = None"
  then have b1: "\<not> reachable r" and b2: "\<forall>q\<in>set qs. no_float_id q"
    and b3: "db_run rt (db_init r) qs = (rs, st)"
    and b4: "py_getitem data ''name'' = Inr name" and b5: "supplied_id data = None"
    by blast+
  from run_keeps_counter_above [OF init_counter_above [OF b1] b2 b3]
  have "counter_above (created_set rs) st" by simp
  then obtain c where rc: "redis_client st = None" and c: "memory_counter st = JInt c"
    and ids: "\<forall>x\<in>created_set rs. x < of_int c"
    and keys: "\<forall>k\<in>fst ` set (memory_users st). \<forall>x. k = KNum x \<longrightarrow> x < of_int c"
    unfolding counter_above_def by blast
  obtain kvs where d: "data = JObj kvs" "obj_get kvs ''name'' = Some name"
    using b4 by (cases data) (auto split: option.splits)
  have i: "(case obj_get kvs ''id'' of None \<Rightarrow> JInt c | Some v \<Rightarrow> v) = JInt c"
    using b5 d by simp
  have "created_id (fst (db_create_user rt st data now)) = Some (JInt c)"
    unfolding d db_create_memory_ok [OF rc c d(2) i] by (simp add: created_id_def obj_get_def)
  moreover have "c \<notin> set (created_ints rs)"
  proof
    assume "c \<in> set (created_ints rs)"
    then have "(of_int c :: rat) \<in> created_set rs" by (rule created_ints_created_set)
    then show False using ids by force
  qed
  moreover have "KNum (of_int c) \<notin> fst ` set (memory_users st)"
  proof
    assume "KNum (of_int c) \<in> fst ` set (memory_users st)"
    then have "(of_int c :: rat) < of_int c" using keys by blast
    then show False by simp
  qed
  then have "map_of (memory_users st) (KNum (of_int c)) = None"
    by (simp add: map_of_eq_None_iff)
  ultimately show "\<exists>c. created_id (fst (db_create_user rt st data now)) = Some (JInt c)
            \<and> c \<notin> set (created_ints rs)
            \<and> map_of (memory_users st) (KNum (of_int c)) = None"
    by blast
next
  assume "\<not> reachable r \<and> db_run rt (db_init r) qs = (rs, st)
    \<and> py_getitem data ''name'' = Inr name
    \<and> py_get data ''id'' (memory_counter st) = Inr (JInt n) \<and> 0 \<le> n
    \<and> py_get data ''email'' (JStr []) = Inr email
    \<and> py_get data ''created_at'' (JFloat now) = Inr created_at"
  then have c0: "\<not> reachable r" and run: "db_run rt (db_init r) qs = (rs, st)"
    and c1: "py_getitem data ''name'' = Inr name"
    and c2: "py_get data ''id'' (memory_counter st) = Inr (JInt n)"
    and n: "0 \<le> n"
    and c3: "py_get data ''email'' (JStr []) = Inr email"
    and c4: "py_get data ''created_at'' (JFloat now) = Inr created_at"
    by blast+
  have c6: "redis_client st = None"
    using run_keeps_mode [OF run] c0 by (simp add: db_init_def)
  from reached_counter_number [OF run] obtain a where a: "num_val (memory_counter st) = Some a" ..
  have b: "num_val (JInt n) = Some (of_int n)" by simp
  from memory_create_number [OF c1 c2 c3 c4 a b c6, of rt]
  obtain c' where cr: "db_create_user rt st data now =
      (Response 201 (JObj [(''user'', JObj [(''id'', JInt n), (''name'', name),
                                 (''email'', email), (''created_at'', created_at)]),
                              (''storage'', JStr ''memory'')]),
       st\<lparr>memory_users := AList.update (KNum (of_int n))
               (JObj [(''id'', JInt n), (''name'', name),
                      (''email'', email), (''created_at'', created_at)]) (memory_users st),
          memory_counter := c'\<rparr>)"
    by blast
  show "route_get_user rt (snd (db_create_user rt st data now)) n =
          Response 200 (JObj [(''user'', JObj [(''id'', JInt n), (''name'', name),
                                 (''email'', email), (''created_at'', created_at)]),
                              (''storage'', JStr ''memory'')])"
    unfolding cr using c6 n
    by (simp add: route_get_user_def db_get_user_def update_conv' storage_def)
qed

theorem create_keeps_other_records_witness:
  "route_get_user example_rt
      (snd (db_create_user example_rt ada_stored_as_7 (JObj [(''name'', JStr ''Bob'')]) (3 / 2))) 7 =
     route_get_user example_rt ada_stored_as_7 7
   \<and> created_ints (fst (db_run example_rt (db_init \<lparr>reachable = False, keyspace = []\<rparr>)
        sample_history)) = [1, 7, 8]
   \<and> created_id (fst (db_create_user example_rt
        (snd (db_run example_rt (db_init \<lparr>reachable = False, keyspace = []\<rparr>) sample_history))
        (JObj [(''name'', JStr ''Dee'')]) (3 / 2))) = Some (JInt 9)
   \<and> (\<exists>c. created_id (fst (db_create_user example_rt
              (snd (db_run example_rt (db_init \<lparr>reachable = False, keyspace = []\<rparr>) sample_history))
              (JObj [(''name'', JStr ''Dee'')]) (3 / 2))) = Some (JInt c)
         \<and> c \<notin> set (created_ints (fst (db_run example_rt
              (db_init \<lparr>reachable = False, keyspace = []\<rparr>) sample_history)))
         \<and> map_of (memory_users (snd (db_run example_rt
              (db_init \<lparr>reachable = False, keyspace = []\<rparr>) sample_history)))
              (KNum (of_int c)) = None)
   \<and> route_get_user example_rt
        (snd (db_create_user example_rt ada_stored_as_7
           (JObj [(''name'', JStr ''Bob''), (''id'', JInt 7)]) (3 / 2))) 7 =
     Response 200 (JObj [(''user'', JObj [(''id'', JInt 7), (''name'', JStr ''Bob''),
                                          (''email'', JStr []), (''created_at'', JFloat (3 / 2))]),
                         (''storage'', JStr ''memory'')])"
proof -
  let ?bob = "JObj [(''name'', JStr ''Bob'')]"
  let ?bob7 = "JObj [(''name'', JStr ''Bob''), (''id'', JInt 7)]"
  let ?ada7 = "JObj [(''name'', JStr ''Ada''), (''id'', JInt 7)]"
  let ?dee = "JObj [(''name'', JStr ''Dee'')]"
  let ?r = "\<lparr>reachable = False, keyspace = []\<rparr>"
  have a: "py_getitem ?bob ''name'' = Inr (JStr ''Bob'')
    \<and> py_get ?bob ''id'' (memory_counter ada_stored_as_7) = Inr (JInt 8)
    \<and> py_get ?bob ''email'' (JStr []) = Inr (JStr [])
    \<and> py_get ?bob ''created_at'' (JFloat (3 / 2)) = Inr (JFloat (3 / 2))"
    by (simp add: obj_get_def ada_stored_as_7_def)
  have b: "\<not> reachable ?r \<and> (\<forall>q\<in>set sample_history. no_float_id q)
    \<and> db_run example_rt (db_init ?r) sample_history =
        (fst (db_run example_rt (db_init ?r) sample_history),
         snd (db_run example_rt (db_init ?r) sample_history))
    \<and> py_getitem ?dee ''name'' = Inr (JStr ''Dee'') \<and> supplied_id ?dee = None"
    by (simp add: sample_history_def obj_get_def)
  have c: "\<not> reachable ?r
    \<and> db_run example_rt (db_init ?r) [Create ?ada7 (3 / 2)] =
        ([Response 201 (JObj [(''user'', JObj [(''id'', JInt 7), (''name'', JStr ''Ada''),
                                 (''email'', JStr []), (''created_at'', JFloat (3 / 2))]),
                              (''storage'', JStr ''memory'')])],
         ada_stored_as_7)
    \<and> py_getitem ?bob7 ''name'' = Inr (JStr ''Bob'')
    \<and> py_get ?bob7 ''id'' (memory_counter ada_stored_as_7) = Inr (JInt 7) \<and> (0::int) \<le> 7
    \<and> py_get ?bob7 ''email'' (JStr []) = Inr (JStr [])
    \<and> py_get ?bob7 ''created_at'' (JFloat (3 / 2)) = Inr (JFloat (3 / 2))"
    by (simp add: db_init_def db_create_user_def store_user_def store_memory_def
          py_max_add_one_def storage_def obj_get_def ada_stored_as_7_def)
  note A = create_keeps_other_records [where data = ?bob and name = "JStr ''Bob''"
      and st = ada_stored_as_7 and n = 8 and email = "JStr []" and now = "3 / 2"
      and created_at = "JFloat (3 / 2)" and rt = example_rt,
      THEN conjunct1, THEN mp, OF a, THEN spec, of 7]
  note B = create_keeps_other_records [where data = ?dee and name = "JStr ''Dee''"
      and r = ?r and qs = sample_history and rt = example_rt and now = "3 / 2"
      and rs = "fst (db_run example_rt (db_init ?r) sample_history)"
      and st = "snd (db_run example_rt (db_init ?r) sample_history)",
      THEN conjunct2, THEN conjunct1, THEN mp, OF b]
  note C = create_keeps_other_records [where data = ?bob7 and name = "JStr ''Bob''"
      and r = ?r and qs = "[Create ?ada7 (3 / 2)]" and rt = example_rt and now = "3 / 2"
      and st = ada_stored_as_7 and n = 7 and email = "JStr []"
      and created_at = "JFloat (3 / 2)",
      THEN conjunct2, THEN conjunct2, THEN mp, OF c]
  have ev: "created_ints (fst (db_run example_rt (db_init ?r) sample_history)) = [1, 7, 8]
    \<and> created_id (fst (db_create_user example_rt
          (snd (db_run example_rt (db_init ?r) sample_history)) ?dee (3 / 2))) = Some (JInt 9)"
    by (simp add: sample_history_def db_init_def db_create_user_def db_delete_user_def
          route_delete_user_def
          store_user_def store_memory_def py_max_add_one_def storage_def obj_get_def
          created_id_def created_ints_def user_deleted_def user_not_found_def create_failed_def)
  from A B C ev show ?thesis by simp
qed

subsection \<open>Delete, then get\<close>

text \<open>
  C7: when a delete of an id is answered 200, a get of that id on the state left behind is
  answered 404 with \<open>User not found\<close>; and when no record has the id (the dict has no
  such key; the store reports that the key does not exist), the delete itself is answered
  404 and the state is unchanged.
\<close>

theorem delete_then_get_not_found:
  "(http_status (fst (db_delete_user st i)) = 200 \<longrightarrow>
      db_get_user rt (snd (db_delete_user st i)) i =
        Response 404 (JObj [(''error'', JStr ''User not found'')]))
   \<and> ((redis_client st = None \<and> map_of (memory_users st) (KNum (of_int i)) = None)
       \<or> (\<exists>r. redis_client st = Some r \<and> r_exists r (''user:'' @ str_int i) = Inr False)
      \<longrightarrow> db_delete_user st i = (Response 404 (JObj [(''error'', JStr ''User not found'')]), st))"
proof (intro conjI impI)
  assume ok: "http_status (fst (db_delete_user st i)) = 200"
  show "db_get_user rt (snd (db_delete_user st i)) i =
        Response 404 (JObj [(''error'', JStr ''User not found'')])"
  proof (cases "redis_client st")
    case None
    then show ?thesis using ok
      by (auto simp: db_delete_user_def db_get_user_def user_not_found_def delete_conv'
            split: if_splits)
  next
    case (Some r)
    let ?k = "''user:'' @ str_int i"
    have "db_delete_user st i =
            (user_deleted st i, st\<lparr>redis_client := Some (r\<lparr>keyspace := AList.delete ?k (keyspace r)\<rparr>)\<rparr>)
          \<and> reachable r"
      using ok Some
      by (auto simp: db_delete_user_def r_exists_def r_delete_def user_not_found_def Let_def
            split: if_splits bool.splits)
    then show ?thesis
      by (simp add: db_get_user_def r_hgetall_def delete_conv' user_not_found_def)
  qed
next
  assume "(redis_client st = None \<and> map_of (memory_users st) (KNum (of_int i)) = None)
       \<or> (\<exists>r. redis_client st = Some r \<and> r_exists r (''user:'' @ str_int i) = Inr False)"
  then show "db_delete_user st i = (Response 404 (JObj [(''error'', JStr ''User not found'')]), st)"
    by (auto simp: db_delete_user_def user_not_found_def)
qed

theorem delete_then_get_not_found_witness:
  "db_delete_user \<lparr>redis_client = None, memory_users = [(KNum 1, ada)], memory_counter = JInt 2\<rparr> 1 =
     (Response 200 (JObj [(''message'', JStr ''User 1 deleted''), (''storage'', JStr ''memory'')]),
      \<lparr>redis_client = None, memory_users = [], memory_counter = JInt 2\<rparr>)
   \<and> db_get_user example_rt
        (snd (db_delete_user
           \<lparr>redis_client = None, memory_users = [(KNum 1, ada)], memory_counter = JInt 2\<rparr> 1)) 1 =
     Response 404 (JObj [(''error'', JStr ''User not found'')])
   \<and> db_delete_user \<lparr>redis_client = None, memory_users = [(KNum 1, ada)], memory_counter = JInt 2\<rparr> 5 =
     (Response 404 (JObj [(''error'', JStr ''User not found'')]),
      \<lparr>redis_client = None, memory_users = [(KNum 1, ada)], memory_counter = JInt 2\<rparr>)
   \<and> db_delete_user external_start 5 =
     (Response 404 (JObj [(''error'', JStr ''User not found'')]), external_start)"
proof -
  let ?st = "\<lparr>redis_client = None, memory_users = [(KNum 1, ada)], memory_counter = JInt 2\<rparr>"
  have d: "db_delete_user ?st 1 =
     (Response 200 (JObj [(''message'', JStr ''User 1 deleted''), (''storage'', JStr ''memory'')]),
      \<lparr>redis_client = None, memory_users = [], memory_counter = JInt 2\<rparr>)"
    by (simp add: db_delete_user_def user_deleted_def storage_def str_int_def str_nat.simps
          digit_char_def)
  then have ok: "http_status (fst (db_delete_user ?st 1)) = 200" by simp
  have a: "redis_client ?st = None \<and> map_of (memory_users ?st) (KNum (of_int 5)) = None"
    by simp
  have b: "\<exists>r. redis_client external_start = Some r \<and> r_exists r (''user:'' @ str_int 5) = Inr False"
    by (simp add: external_start_def db_init_def r_exists_def)
  note D1 = delete_then_get_not_found [of ?st 1 example_rt, THEN conjunct1, THEN mp, OF ok]
  note D2 = delete_then_get_not_found [of ?st 5 example_rt, THEN conjunct2, THEN mp,
      OF disjI1, OF a]
  note D3 = delete_then_get_not_found [of external_start 5 example_rt, THEN conjunct2, THEN mp,
      OF disjI2, OF b]
  from d D1 D2 D3
  show ?thesis by simp
qed

subsection \<open>The rolled-back transaction\<close>

text \<open>
  C8: when the service runs against the external store, the \<open>transaction_rollback\<close>
  scenario raises the rollback fault and leaves the store as it was: the two \<open>SET\<close>
  commands stay in the client's queue, which is dropped, so neither \<open>tx_key1\<close> nor
  \<open>tx_key2\<close> is written.
\<close>

theorem transaction_rollback_writes_nothing:
  "redis_client st = Some r \<Longrightarrow>
     trigger_database_error env st ''transaction_rollback'' =
       (Raised (Exn ''RuntimeError''
          ''Transaction rolled back due to error: Transaction failed at step 2''), st)
     \<and> redis_client (snd (trigger_database_error env st ''transaction_rollback'')) = Some r"
  by (simp add: trigger_database_error_def transaction_body_def new_pipeline_def
        pipe_multi_def Let_def)

theorem transaction_rollback_writes_nothing_witness:
  "redis_client external_start = Some \<lparr>reachable = True, keyspace = []\<rparr>
   \<and> trigger_database_error example_db_env external_start ''transaction_rollback'' =
       (Raised (Exn ''RuntimeError''
          ''Transaction rolled back due to error: Transaction failed at step 2''), external_start)
   \<and> redis_client (snd (trigger_database_error example_db_env external_start ''transaction_rollback''))
       = Some \<lparr>reachable = True, keyspace = []\<rparr>"
proof -
  have h: "redis_client external_start = Some \<lparr>reachable = True, keyspace = []\<rparr>"
    by (simp add: external_start_def db_init_def)
  show ?thesis
    using h transaction_rollback_writes_nothing [OF h, of example_db_env] by simp
qed

subsection \<open>The count of a listing\<close>

text \<open>
  C9: in every 200 response of the aggregator's merged listing and of the database
  service's listing, \<open>count\<close> is the length of the list under \<open>users\<close>.
\<close>

theorem list_count_is_length:
  "(api_get_users st d = Response 200 body \<longrightarrow>
      (\<exists>us. py_getitem body ''users'' = Inr (JArr us)
            \<and> py_getitem body ''count'' = Inr (JInt (int (length us)))))
   \<and> (db_get_users rt dst = Response 200 body' \<longrightarrow>
      (\<exists>us. py_getitem body' ''users'' = Inr (JArr us)
            \<and> py_getitem body' ''count'' = Inr (JInt (int (length us)))))"
  by (auto simp: api_get_users_def db_get_users_def Let_def obj_get_def
           split: sum.splits option.splits)

theorem list_count_is_length_witness:
  "api_get_users \<lparr>users = [ada], user_counter = 2\<rparr>
      (DownReply 200 (Some (JObj [(''users'', JArr [bob])]))) =
     Response 200 (JObj [(''users'', JArr [ada, bob]), (''count'', JInt 2),
                         (''source'', JStr ''api-service'')])
   \<and> db_get_users example_rt
        \<lparr>redis_client = None, memory_users = [(KNum 1, ada), (KNum 2, bob)], memory_counter = JInt 3\<rparr> =
     Response 200 (JObj [(''users'', JArr [ada, bob]), (''count'', JInt 2),
                         (''source'', JStr ''database-service''), (''storage'', JStr ''memory'')])
   \<and> (\<exists>us. py_getitem (JObj [(''users'', JArr [ada, bob]), (''count'', JInt 2),
                               (''source'', JStr ''api-service'')]) ''users'' = Inr (JArr us)
          \<and> py_getitem (JObj [(''users'', JArr [ada, bob]), (''count'', JInt 2),
                               (''source'', JStr ''api-service'')]) ''count''
              = Inr (JInt (int (length us))))
   \<and> (\<exists>us. py_getitem (JObj [(''users'', JArr [ada, bob]), (''count'', JInt 2),
                               (''source'', JStr ''database-service''),
                               (''storage'', JStr ''memory'')]) ''users'' = Inr (JArr us)
          \<and> py_getitem (JObj [(''users'', JArr [ada, bob]), (''count'', JInt 2),
                               (''source'', JStr ''database-service''),
                               (''storage'', JStr ''memory'')]) ''count''
              = Inr (JInt (int (length us))))"
proof -
  let ?ast = "\<lparr>users = [ada], user_counter = 2\<rparr>"
  let ?d = "DownReply 200 (Some (JObj [(''users'', JArr [bob])]))"
  let ?dst = "\<lparr>redis_client = None, memory_users = [(KNum 1, ada), (KNum 2, bob)],
               memory_counter = JInt 3\<rparr>"
  have a: "api_get_users ?ast ?d =
     Response 200 (JObj [(''users'', JArr [ada, bob]), (''count'', JInt 2),
                         (''source'', JStr ''api-service'')])"
    by (simp add: api_get_users_def fetch_all_users_def obj_get_def)
  have d: "db_get_users example_rt ?dst =
     Response 200 (JObj [(''users'', JArr [ada, bob]), (''count'', JInt 2),
                         (''source'', JStr ''database-service''), (''storage'', JStr ''memory'')])"
    by (simp add: db_get_users_def storage_def)
  note A = list_count_is_length [of ?ast ?d _ example_rt ?dst, THEN conjunct1, THEN mp, OF a]
  note D = list_count_is_length [of ?ast ?d _ example_rt ?dst, THEN conjunct2, THEN mp, OF d]
  from a d A D
  show ?thesis by simp
qed

subsection \<open>The 500 responses in Fallback mode\<close>

text \<open>
  C10, as stated, fails: in Fallback mode a create whose body supplies the id \<open>"abc"\<close>
  stores the record in the dict, then \<open>max(memory_counter, user_id)\<close> raises
  \<open>TypeError\<close>, and the handler of the \<open>try\<close> answers 500.
\<close>

theorem fallback_create_answers_500:
  "redis_client fallback_start = None
   \<and> db_create_user example_rt fallback_start
        (JObj [(''name'', JStr ''Ada''), (''id'', JStr ''abc'')]) (3 / 2) =
       (Response 500 (JObj [(''error'', JStr ''Failed to create user'')]),
        \<lparr>redis_client = None,
           memory_users = [(KStr ''abc'', JObj [(''id'', JStr ''abc''), (''name'', JStr ''Ada''),
                                (''email'', JStr []), (''created_at'', JFloat (3 / 2))])],
           memory_counter = JInt 1\<rparr>)"
  by (simp add: db_create_user_def store_user_def store_memory_def py_max_add_one_def
        fallback_start_def db_init_def obj_get_def create_failed_def)

text \<open>
  C10, amended: in Fallback mode the listing is always answered 200, a get and a delete are
  always answered 200 or 404, and a create whose body is a JSON object that supplies no id
  or an integer id is answered 201 or 400 (the counter being an integer, as it is from the
  start); none of these is the 500 response. A create whose body has a name and supplies an
  id that is not a number is answered 500.
\<close>

theorem fallback_crud_statuses:
  assumes "redis_client st = None"
  shows "http_status (db_get_users rt st) = 200
       \<and> (http_status (db_get_user rt st i) = 200 \<or> http_status (db_get_user rt st i) = 404)
       \<and> (http_status (fst (db_delete_user st i)) = 200
           \<or> http_status (fst (db_delete_user st i)) = 404)
       \<and> (memory_counter st = JInt c \<and> integer_id (Create (JObj kvs) now) \<longrightarrow>
            http_status (fst (db_create_user rt st (JObj kvs) now)) = 201
            \<or> http_status (fst (db_create_user rt st (JObj kvs) now)) = 400)
       \<and> (obj_get kvs ''name'' = Some name \<and> obj_get kvs ''id'' = Some v \<and> num_val v = None
            \<longrightarrow> http_status (fst (db_create_user rt st (JObj kvs) now)) = 500)"
proof (intro conjI impI)
  show "http_status (db_get_users rt st) = 200"
    using assms by (simp add: db_get_users_def)
  show "http_status (db_get_user rt st i) = 200 \<or> http_status (db_get_user rt st i) = 404"
    using assms by (simp add: db_get_user_def user_not_found_def split: option.splits)
  show "http_status (fst (db_delete_user st i)) = 200
        \<or> http_status (fst (db_delete_user st i)) = 404"
    using assms by (simp add: db_delete_user_def user_not_found_def user_deleted_def)
next
  assume a: "memory_counter st = JInt c \<and> integer_id (Create (JObj kvs) now)"
  show "http_status (fst (db_create_user rt st (JObj kvs) now)) = 201
        \<or> http_status (fst (db_create_user rt st (JObj kvs) now)) = 400"
  proof (cases "obj_get kvs ''name''")
    case None
    then have "py_in ''name'' (JObj kvs) = Inr False" by (simp add: obj_get_None_iff)
    then show ?thesis using validation_400(2) [of "JObj kvs" rt st now]
      by (simp add: name_required_def)
  next
    case (Some name)
    from a obtain n where "(case obj_get kvs ''id'' of None \<Rightarrow> JInt c | Some v \<Rightarrow> v) = JInt n"
      by (auto split: option.splits json.splits)
    from db_create_memory_ok [OF assms _ Some this, of rt now] a
    show ?thesis by simp
  qed
next
  assume b: "obj_get kvs ''name'' = Some name \<and> obj_get kvs ''id'' = Some v \<and> num_val v = None"
  then have g: "py_getitem (JObj kvs) ''name'' = Inr name"
    and i: "py_get (JObj kvs) ''id'' (memory_counter st) = Inr v"
    by simp_all
  have e: "py_get (JObj kvs) ''email'' (JStr []) =
             Inr (case obj_get kvs ''email'' of None \<Rightarrow> JStr [] | Some x \<Rightarrow> x)"
    and t: "py_get (JObj kvs) ''created_at'' (JFloat now) =
             Inr (case obj_get kvs ''created_at'' of None \<Rightarrow> JFloat now | Some x \<Rightarrow> x)"
    by simp_all
  show "http_status (fst (db_create_user rt st (JObj kvs) now)) = 500"
    unfolding create_reads [OF g i e t]
    using assms b
    by (simp add: store_user_def store_memory_def py_max_add_one_def create_failed_def
          split: option.splits)
qed

theorem fallback_crud_statuses_witness:
  "http_status (db_get_users example_rt
      \<lparr>redis_client = None, memory_users = [(KNum 1, ada)], memory_counter = JInt 2\<rparr>) = 200
   \<and> http_status (db_get_user example_rt
      \<lparr>redis_client = None, memory_users = [(KNum 1, ada)], memory_counter = JInt 2\<rparr> 1) = 200
   \<and> http_status (fst (db_delete_user
      \<lparr>redis_client = None, memory_users = [(KNum 1, ada)], memory_counter = JInt 2\<rparr> 1)) = 200
   \<and> http_status (fst (db_create_user example_rt
      \<lparr>redis_client = None, memory_users = [(KNum 1, ada)], memory_counter = JInt 2\<rparr>
      (JObj [(''name'', JStr ''Bob'')]) (3 / 2))) = 201
   \<and> http_status (fst (db_create_user example_rt
      \<lparr>redis_client = None, memory_users = [(KNum 1, ada)], memory_counter = JInt 2\<rparr>
      (JObj [(''name'', JStr ''Bob''), (''id'', JNull)]) (3 / 2))) = 500"
proof -
  let ?st = "\<lparr>redis_client = None, memory_users = [(KNum 1, ada)], memory_counter = JInt 2\<rparr>"
  have h: "redis_client ?st = None" by simp
  have g: "http_status (db_get_user example_rt ?st 1) \<noteq> 404"
    by (simp add: db_get_user_def ada_def)
  have d: "http_status (fst (db_delete_user ?st 1)) \<noteq> 404"
    by (simp add: db_delete_user_def user_deleted_def)
  have c: "memory_counter ?st = JInt 2 \<and> integer_id (Create (JObj [(''name'', JStr ''Bob'')]) (3 / 2))"
    by (simp add: obj_get_def)
  have n: "http_status (fst (db_create_user example_rt ?st (JObj [(''name'', JStr ''Bob'')]) (3 / 2)))
            \<noteq> 400"
    by (simp add: db_create_user_def store_user_def store_memory_def py_max_add_one_def obj_get_def)
  note T = fallback_crud_statuses [OF h, where rt = example_rt and i = 1 and c = 2
      and kvs = "[(''name'', JStr ''Bob'')]" and now = "3 / 2"]
  have b: "obj_get [(''name'', JStr ''Bob''), (''id'', JNull)] ''name'' = Some (JStr ''Bob'')
      \<and> obj_get [(''name'', JStr ''Bob''), (''id'', JNull)] ''id'' = Some JNull
      \<and> num_val JNull = None"
    by (simp add: obj_get_def)
  note N = fallback_crud_statuses [OF h, where rt = example_rt
      and kvs = "[(''name'', JStr ''Bob''), (''id'', JNull)]" and now = "3 / 2"
      and name = "JStr ''Bob''" and v = JNull,
      THEN conjunct2, THEN conjunct2, THEN conjunct2, THEN conjunct2, THEN mp, OF b]
  from T g d n c N show ?thesis by blast
qed

end
